theory Spec2Isabelle
  imports Main
begin

section \<open>JavaScript values\<close>

text \<open>
  The handlers of \<^verbatim>\<open>src/index.js\<close> work on values parsed from JSON: the request
  body given by \<^verbatim>\<open>express.json()\<close> and the responses of the Notion client. A value is
  \<^verbatim>\<open>undefined\<close>, \<^verbatim>\<open>null\<close>, a boolean, a number, a string, an array or an object.

  \<^item> A number is kept as its canonical text (what \<^verbatim>\<open>Number.prototype.toString\<close> gives,
    \<^verbatim>\<open>-0\<close> printing as \<^verbatim>\<open>0\<close>): the handlers only test a number for truthiness,
    interpolate it into a template literal, or pass it on.
  \<^item> A string is a list of code units; a \<^typ>\<open>char\<close> stands for a code unit below 256.
  \<^item> An object is the list of its own fields in insertion order, the keys distinct.
\<close>

datatype jsval =
    JUndefined
  | JNull
  | JBool bool
  | JNum string
  | JStr string
  | JArr "jsval list"
  | JObj "(string \<times> jsval) list"

text \<open>
  What the handlers' own code throws is a \<^verbatim>\<open>TypeError\<close> (reading a member of
  \<^verbatim>\<open>undefined\<close> or \<^verbatim>\<open>null\<close>, calling what is no function). What the client
  library rejects with is an \<^verbatim>\<open>Error\<close> object (\<^verbatim>\<open>APIResponseError\<close>,
  \<^verbatim>\<open>RequestTimeoutError\<close>, a transport error), given here by its fields; the
  \<^verbatim>\<open>catch\<close> blocks read its \<^verbatim>\<open>body\<close>.
\<close>

datatype thrown = TypeError | Rejection "(string \<times> jsval) list"

text \<open>\<^verbatim>\<open>!v\<close> is \<open>\<not> truthy v\<close>; \<^verbatim>\<open>a || b\<close> is \<open>if truthy a then a else b\<close>.\<close>

fun truthy :: "jsval \<Rightarrow> bool" where
  "truthy JUndefined = False"
| "truthy JNull = False"
| "truthy (JBool b) = b"
| "truthy (JNum n) = (n \<noteq> ''0'' \<and> n \<noteq> ''NaN'')"
| "truthy (JStr s) = (s \<noteq> [])"
| "truthy (JArr xs) = True"
| "truthy (JObj kvs) = True"

definition js_or :: "jsval \<Rightarrow> jsval \<Rightarrow> jsval" where
  "js_or a b = (if truthy a then a else b)"

fun nullish :: "jsval \<Rightarrow> bool" where
  "nullish JUndefined = True"
| "nullish JNull = True"
| "nullish v = False"

text \<open>
  \<open>field kvs k\<close> reads the own field \<open>k\<close> of an object, \<^verbatim>\<open>undefined\<close> when there is
  none. \<open>js_member v k\<close> is \<^verbatim>\<open>v[k]\<close> on a value that is neither \<^verbatim>\<open>undefined\<close> nor
  \<^verbatim>\<open>null\<close>: index \<^verbatim>\<open>0\<close> of an array is its first element and of a string its first
  code unit. The keys the handlers use are literals; \<^verbatim>\<open>length\<close>, the indices above
  \<^verbatim>\<open>0\<close> and the members inherited from the standard prototypes (listed in
  \<open>object_prototype_keys\<close>) are not among them and are not modelled.
\<close>

definition field :: "(string \<times> jsval) list \<Rightarrow> string \<Rightarrow> jsval" where
  "field kvs k = (case map_of kvs k of None \<Rightarrow> JUndefined | Some v \<Rightarrow> v)"

fun js_member :: "jsval \<Rightarrow> string \<Rightarrow> jsval" where
  "js_member (JObj kvs) k = field kvs k"
| "js_member (JArr xs) k =
     (if k = ''0'' then (case xs of [] \<Rightarrow> JUndefined | x # _ \<Rightarrow> x) else JUndefined)"
| "js_member (JStr s) k =
     (if k = ''0'' then (case s of [] \<Rightarrow> JUndefined | c # _ \<Rightarrow> JStr [c]) else JUndefined)"
| "js_member v k = JUndefined"

definition object_prototype_keys :: "string list" where
  "object_prototype_keys =
     [''constructor'', ''hasOwnProperty'', ''isPrototypeOf'', ''propertyIsEnumerable'',
      ''toLocaleString'', ''toString'', ''valueOf'', ''__proto__'',
      ''__defineGetter__'', ''__defineSetter__'', ''__lookupGetter__'', ''__lookupSetter__'']"

text \<open>\<^verbatim>\<open>v[k]\<close> and \<^verbatim>\<open>v.k\<close>: a \<^verbatim>\<open>TypeError\<close> on \<^verbatim>\<open>undefined\<close> and \<^verbatim>\<open>null\<close>.\<close>

definition js_get :: "jsval \<Rightarrow> string \<Rightarrow> thrown + jsval" where
  "js_get v k = (if nullish v then Inl TypeError else Inr (js_member v k))"

text \<open>\<^verbatim>\<open>v?.[k]\<close> and \<^verbatim>\<open>v?.k\<close>: \<^verbatim>\<open>undefined\<close> on \<^verbatim>\<open>undefined\<close> and \<^verbatim>\<open>null\<close>.\<close>

definition opt_get :: "jsval \<Rightarrow> string \<Rightarrow> jsval" where
  "opt_get v k = (if nullish v then JUndefined else js_member v k)"

text \<open>Sequencing of steps that may throw: the first exception ends the computation.\<close>

definition and_then :: "thrown + 'a \<Rightarrow> ('a \<Rightarrow> thrown + 'b) \<Rightarrow> thrown + 'b" where
  "and_then r f = (case r of Inl e \<Rightarrow> Inl e | Inr x \<Rightarrow> f x)"

text \<open>\<^verbatim>\<open>xs.map(f)\<close> with a callback that may throw, in element order.\<close>

fun map_throwing :: "('a \<Rightarrow> thrown + 'b) \<Rightarrow> 'a list \<Rightarrow> thrown + 'b list" where
  "map_throwing f [] = Inr []"
| "map_throwing f (x # xs) =
     and_then (f x) (\<lambda>y. and_then (map_throwing f xs) (\<lambda>ys. Inr (y # ys)))"

text \<open>\<^verbatim>\<open>v.map(f)\<close> on a parsed JSON value: only an array has a \<^verbatim>\<open>map\<close> method.\<close>

definition js_map :: "(jsval \<Rightarrow> thrown + jsval) \<Rightarrow> jsval \<Rightarrow> thrown + jsval" where
  "js_map f v =
     (case v of
        JArr xs \<Rightarrow> and_then (map_throwing f xs) (\<lambda>ys. Inr (JArr ys))
      | _ \<Rightarrow> Inl TypeError)"

section \<open>Strings\<close>

text \<open>\<^verbatim>\<open>parts.join(sep)\<close>.\<close>

fun join :: "string \<Rightarrow> string list \<Rightarrow> string" where
  "join sep [] = []"
| "join sep [w] = w"
| "join sep (w # ws) = w @ sep @ join sep ws"

text \<open>
  \<^verbatim>\<open>s.split(',')\<close> with a separator of one code unit: the pieces between the
  separators, in order; a string without the separator (the empty string too) gives one
  piece.
\<close>

fun split :: "char \<Rightarrow> string \<Rightarrow> string list" where
  "split sep [] = [[]]"
| "split sep (c # cs) =
     (if c = sep then [] # split sep cs
      else (case split sep cs of [] \<Rightarrow> [[c]] | w # ws \<Rightarrow> (c # w) # ws))"

text \<open>
  White space and line terminators of ECMAScript among the code units below 256: tab,
  line feed, vertical tab, form feed, carriage return, space, no-break space.
\<close>

definition is_white_space :: "char \<Rightarrow> bool" where
  "is_white_space c =
     (c \<in> set [CHR 0x09, CHR 0x0A, CHR 0x0B, CHR 0x0C, CHR 0x0D, CHR 0x20, CHR 0xA0])"

text \<open>\<^verbatim>\<open>s.trim()\<close>.\<close>

definition trim :: "string \<Rightarrow> string" where
  "trim s = rev (dropWhile is_white_space (rev (dropWhile is_white_space s)))"

text \<open>
  \<^verbatim>\<open>String(v)\<close>, as a template literal applies it to an interpolated value. An
  array prints its elements joined by commas, \<^verbatim>\<open>undefined\<close> and \<^verbatim>\<open>null\<close> among
  them as nothing. An object prints as \<^verbatim>\<open>[object Object]\<close>, unless it has an own
  field \<^verbatim>\<open>toString\<close>, which (parsed from JSON) is no function: the conversion then
  throws a \<^verbatim>\<open>TypeError\<close>.
\<close>

fun js_to_string :: "jsval \<Rightarrow> thrown + string"
  and strings_of_elements :: "jsval list \<Rightarrow> thrown + string list" where
  "js_to_string JUndefined = Inr ''undefined''"
| "js_to_string JNull = Inr ''null''"
| "js_to_string (JBool b) = Inr (if b then ''true'' else ''false'')"
| "js_to_string (JNum n) = Inr n"
| "js_to_string (JStr s) = Inr s"
| "js_to_string (JArr xs) =
     and_then (strings_of_elements xs) (\<lambda>parts. Inr (join '','' parts))"
| "js_to_string (JObj kvs) =
     (if ''toString'' \<in> fst ` set kvs then Inl TypeError else Inr ''[object Object]'')"
| "strings_of_elements [] = Inr []"
| "strings_of_elements (x # xs) =
     and_then (if nullish x then Inr [] else js_to_string x) (\<lambda>s.
     and_then (strings_of_elements xs) (\<lambda>ss. Inr (s # ss)))"

section \<open>Requests, the upstream API and responses\<close>

text \<open>
  A request is given by its body, the JSON object that \<^verbatim>\<open>express.json()\<close> parsed
  (\<^verbatim>\<open>{}\<close> when the request has none), as the list of its fields. A handler reads it
  by destructuring, \<^verbatim>\<open>const { notionToken } = req.body\<close>, which is
  \<open>field body ''notionToken''\<close>. \<open>absent_or_empty body k\<close>: the body has no field
  \<open>k\<close>, or has the empty string there.
\<close>

definition absent_or_empty :: "(string \<times> jsval) list \<Rightarrow> string \<Rightarrow> bool" where
  "absent_or_empty body k = (map_of body k = None \<or> map_of body k = Some (JStr ''''))"

text \<open>
  A call of the Notion client: the token the client was built with
  (\<^verbatim>\<open>new Client({ auth: notionToken })\<close>), the method called and its argument.
\<close>

datatype endpoint = Search | DatabasesQuery | PagesUpdate

record upstream_call =
  auth :: jsval
  endpoint :: endpoint
  args :: jsval

text \<open>
  The external API is a parameter of every handler: the call either rejects with an
  error object or resolves to a value.
\<close>

type_synonym upstream = "upstream_call \<Rightarrow> thrown + jsval"

text \<open>
  What one run of a handler does: the status and JSON body it sends, the calls it made
  to the external API, and the lines it wrote with \<^verbatim>\<open>console.error\<close> (label and
  logged value).
\<close>

record outcome =
  status :: nat
  sent :: jsval
  calls :: "upstream_call list"
  logged :: "(string \<times> jsval) list"

text \<open>
  \<^verbatim>\<open>res.json(v)\<close> sends \<^verbatim>\<open>JSON.stringify(v)\<close>; \<open>wire v\<close> is what the receiver parses
  back: a field whose value is \<^verbatim>\<open>undefined\<close> is left out of its object, an
  \<^verbatim>\<open>undefined\<close> array element is sent as \<^verbatim>\<open>null\<close>.
\<close>

fun wire :: "jsval \<Rightarrow> jsval"
  and wire_elements :: "jsval list \<Rightarrow> jsval list"
  and wire_fields :: "(string \<times> jsval) list \<Rightarrow> (string \<times> jsval) list" where
  "wire (JArr xs) = JArr (wire_elements xs)"
| "wire (JObj kvs) = JObj (wire_fields kvs)"
| "wire (JNum n) =
     (if n \<in> set [''NaN'', ''Infinity'', ''-Infinity''] then JNull else JNum n)"
| "wire JUndefined = JUndefined"
| "wire JNull = JNull"
| "wire (JBool b) = JBool b"
| "wire (JStr s) = JStr s"
| "wire_elements [] = []"
| "wire_elements (x # xs) = (if x = JUndefined then JNull else wire x) # wire_elements xs"
| "wire_fields [] = []"
| "wire_fields (kv # kvs) =
     (if snd kv = JUndefined then wire_fields kvs
      else (fst kv, wire (snd kv)) # wire_fields kvs)"

text \<open>\<^verbatim>\<open>res.status(code).json(v)\<close>; \<^verbatim>\<open>res.json(v)\<close> alone has status 200.\<close>

definition respond ::
  "nat \<Rightarrow> jsval \<Rightarrow> upstream_call list \<Rightarrow> (string \<times> jsval) list \<Rightarrow> outcome" where
  "respond code v cs ls = \<lparr>status = code, sent = wire v, calls = cs, logged = ls\<rparr>"

text \<open>\<^verbatim>\<open>error.body\<close> in a \<^verbatim>\<open>catch\<close> block.\<close>

fun error_body :: "thrown \<Rightarrow> jsval" where
  "error_body TypeError = JUndefined"
| "error_body (Rejection fs) = field fs ''body''"

section \<open>POST /api/get-databases\<close>

text \<open>
  The callback of \<^verbatim>\<open>response.results.map\<close>:
  \<^verbatim>\<open>db => ({ id: db.id, title: db.title[0]?.plain_text || 'Untitled Database' })\<close>.
\<close>

definition database_summary :: "jsval \<Rightarrow> thrown + jsval" where
  "database_summary db =
     and_then (js_get db ''id'') (\<lambda>id.
     and_then (js_get db ''title'') (\<lambda>title.
     and_then (js_get title ''0'') (\<lambda>fragment.
       Inr (JObj [(''id'', id),
                  (''title'', js_or (opt_get fragment ''plain_text'')
                                    (JStr ''Untitled Database''))]))))"

definition search_call :: "jsval \<Rightarrow> upstream_call" where
  "search_call notionToken =
     \<lparr>auth = notionToken, endpoint = Search,
      args = JObj [(''filter'', JObj [(''value'', JStr ''database''),
                                      (''property'', JStr ''object'')])]\<rparr>"

text \<open>
  The handler, with the text of its 500 answer as a parameter: \<^verbatim>\<open>src/index.js\<close> holds
  the handlers twice, the second time with comments, and the two copies of this handler
  and of the next differ in that text only. \<open>get_databases\<close> is the first copy (the one
  of \<^verbatim>\<open>src/unnamed/part_000\<close> too), \<open>get_databases_commented\<close> the second.
\<close>

definition get_databases_with ::
  "string \<Rightarrow> upstream \<Rightarrow> (string \<times> jsval) list \<Rightarrow> outcome" where
  "get_databases_with failure upstream body =
     (let notionToken = field body ''notionToken'' in
      if \<not> truthy notionToken
      then respond 400 (JObj [(''error'', JStr ''Notion token is required.'')]) [] []
      else
        (case and_then (upstream (search_call notionToken)) (\<lambda>response.
              and_then (js_get response ''results'') (js_map database_summary)) of
           Inr databases \<Rightarrow> respond 200 databases [search_call notionToken] []
         | Inl error \<Rightarrow>
             respond 500 (JObj [(''error'', JStr failure)]) [search_call notionToken]
               [(''Error fetching databases:'', error_body error)]))"

definition get_databases :: "upstream \<Rightarrow> (string \<times> jsval) list \<Rightarrow> outcome" where
  "get_databases = get_databases_with ''Failed to fetch databases from Notion.''"

definition get_databases_commented :: "upstream \<Rightarrow> (string \<times> jsval) list \<Rightarrow> outcome" where
  "get_databases_commented =
     get_databases_with
       ''Failed to fetch databases from Notion. Check your token and permissions.''"

section \<open>POST /api/get-posts\<close>

text \<open>
  The helper \<^verbatim>\<open>getProp\<close>, a closure over the page's \<^verbatim>\<open>properties\<close>; the default
  \<^verbatim>\<open>subType = 'plain_text'\<close> is passed by the caller.
\<close>

definition getProp :: "jsval \<Rightarrow> string \<Rightarrow> string \<Rightarrow> string \<Rightarrow> thrown + jsval" where
  "getProp properties name type subType =
     and_then (js_get properties name) (\<lambda>property.
       if \<not> truthy property then Inr JNull
       else if type = ''title'' \<or> type = ''rich_text'' then
         and_then (js_get property type) (\<lambda>fragments.
         and_then (js_get fragments ''0'') (\<lambda>fragment.
           Inr (js_or (opt_get fragment subType) (JStr ''''))))
       else if type = ''url'' then js_get property ''url''
       else if type = ''date'' then
         and_then (js_get property ''date'') (\<lambda>date. Inr (opt_get date ''start''))
       else Inr JNull)"

text \<open>
  \<^verbatim>\<open>v.split(',').map(u => u.trim()).filter(Boolean)\<close>: only a string has the
  \<^verbatim>\<open>split\<close> method.
\<close>

definition media_list :: "jsval \<Rightarrow> thrown + jsval" where
  "media_list v =
     (case v of
        JStr s \<Rightarrow> Inr (JArr (filter truthy (map (\<lambda>u. JStr (trim u)) (split CHR '','' s))))
      | _ \<Rightarrow> Inl TypeError)"

text \<open>The callback of \<^verbatim>\<open>response.results.map\<close>, fields in the order of the source.\<close>

definition post_of_page :: "jsval \<Rightarrow> thrown + jsval" where
  "post_of_page page =
     and_then (js_get page ''properties'') (\<lambda>properties.
     and_then (js_get page ''id'') (\<lambda>id.
     and_then (getProp properties ''Headline'' ''title'' ''plain_text'') (\<lambda>headline.
     and_then (getProp properties ''Media'' ''url'' ''plain_text'') (\<lambda>url.
     and_then (media_list (js_or url (JStr ''''))) (\<lambda>media.
     and_then (getProp properties ''Caption'' ''rich_text'' ''plain_text'') (\<lambda>caption.
     and_then (getProp properties ''Scheduled Date'' ''date'' ''plain_text'') (\<lambda>date.
       Inr (JObj [(''id'', id), (''headline'', headline), (''media'', media),
                  (''caption'', caption), (''date'', date)]))))))))"

definition query_call :: "jsval \<Rightarrow> jsval \<Rightarrow> upstream_call" where
  "query_call notionToken databaseId =
     \<lparr>auth = notionToken, endpoint = DatabasesQuery,
      args = JObj [(''database_id'', databaseId),
                   (''sorts'', JArr [JObj [(''property'', JStr ''Scheduled Date''),
                                           (''direction'', JStr ''ascending'')]])]\<rparr>"

definition get_posts_with ::
  "string \<Rightarrow> upstream \<Rightarrow> (string \<times> jsval) list \<Rightarrow> outcome" where
  "get_posts_with failure upstream body =
     (let notionToken = field body ''notionToken'';
          databaseId = field body ''databaseId'' in
      if \<not> truthy notionToken \<or> \<not> truthy databaseId
      then respond 400 (JObj [(''error'', JStr ''Notion token and Database ID are required.'')])
             [] []
      else
        (case and_then (upstream (query_call notionToken databaseId)) (\<lambda>response.
              and_then (js_get response ''results'') (js_map post_of_page)) of
           Inr posts \<Rightarrow> respond 200 posts [query_call notionToken databaseId] []
         | Inl error \<Rightarrow>
             respond 500 (JObj [(''error'', JStr failure)])
               [query_call notionToken databaseId]
               [(''Error fetching posts:'', error_body error)]))"

definition get_posts :: "upstream \<Rightarrow> (string \<times> jsval) list \<Rightarrow> outcome" where
  "get_posts = get_posts_with ''Failed to fetch posts from Notion.''"

definition get_posts_commented :: "upstream \<Rightarrow> (string \<times> jsval) list \<Rightarrow> outcome" where
  "get_posts_commented =
     get_posts_with
       (''Failed to fetch posts from Notion. '' @
        ''Check database ID and ensure integration has access.'')"

section \<open>POST /api/update-post-date\<close>

definition update_call :: "jsval \<Rightarrow> jsval \<Rightarrow> jsval \<Rightarrow> upstream_call" where
  "update_call notionToken pageId newDate =
     \<lparr>auth = notionToken, endpoint = PagesUpdate,
      args = JObj [(''page_id'', pageId),
                   (''properties'',
                    JObj [(''Scheduled Date'',
                           JObj [(''date'', JObj [(''start'', newDate)])])])]\<rparr>"

text \<open>The template literal \<^verbatim>\<open>`Post ${pageId} updated to ${newDate}`\<close>.\<close>

definition update_message :: "jsval \<Rightarrow> jsval \<Rightarrow> thrown + string" where
  "update_message pageId newDate =
     and_then (js_to_string pageId) (\<lambda>p.
     and_then (js_to_string newDate) (\<lambda>d.
       Inr (''Post '' @ p @ '' updated to '' @ d)))"

definition update_post_date :: "upstream \<Rightarrow> (string \<times> jsval) list \<Rightarrow> outcome" where
  "update_post_date upstream body =
     (let notionToken = field body ''notionToken'';
          pageId = field body ''pageId'';
          newDate = field body ''newDate'' in
      if \<not> truthy notionToken \<or> \<not> truthy pageId \<or> \<not> truthy newDate
      then respond 400 (JObj [(''error'', JStr ''Token, Page ID, and new date are required.'')])
             [] []
      else
        (case and_then (upstream (update_call notionToken pageId newDate)) (\<lambda>_.
              update_message pageId newDate) of
           Inr message \<Rightarrow>
             respond 200 (JObj [(''success'', JBool True), (''message'', JStr message)])
               [update_call notionToken pageId newDate] []
         | Inl error \<Rightarrow>
             respond 500 (JObj [(''error'', JStr ''Failed to update post date in Notion.'')])
               [update_call notionToken pageId newDate]
               [(''Error updating post date:'', error_body error)]))"

section \<open>Example requests and upstream behaviours\<close>

text \<open>
  Concrete inputs on which the handlers are run below: an external API that rejects every
  call with an \<^verbatim>\<open>APIResponseError\<close>, two that accept an update (with different
  answers), one that answers a search with four databases, and one that answers a query
  with three pages: \<open>page_a\<close> with all four properties set, \<open>page_b\<close> with an empty
  URL and an empty date and neither headline nor caption, \<open>page_c\<close> with no properties.
  \<open>databases_records\<close> and \<open>posts_records\<close> are the arrays the handlers send for them.
\<close>

definition failing_upstream :: upstream where
  "failing_upstream call =
     Inl (Rejection [(''code'', JStr ''unauthorized''), (''status'', JNum ''401''),
                     (''body'', JStr ''{\"message\":\"API token is invalid.\"}'')])"

definition accepting_upstream :: upstream where
  "accepting_upstream call = Inr (JObj [(''object'', JStr ''page''), (''id'', JStr ''p1'')])"

definition update_body :: "(string \<times> jsval) list" where
  "update_body =
     [(''notionToken'', JStr ''t''), (''pageId'', JStr ''p1''),
      (''newDate'', JStr ''2024-05-01'')]"

definition databases_body :: "(string \<times> jsval) list" where
  "databases_body = [(''notionToken'', JStr ''t'')]"

definition posts_body :: "(string \<times> jsval) list" where
  "posts_body = [(''notionToken'', JStr ''t''), (''databaseId'', JStr ''d'')]"

definition accepting_later_upstream :: upstream where
  "accepting_later_upstream call =
     Inr (JObj [(''object'', JStr ''page''), (''id'', JStr ''p1''),
                (''last_edited_time'', JStr ''2024-04-30T10:00:00.000Z'')])"

definition databases_upstream :: upstream where
  "databases_upstream call =
     Inr (JObj [(''object'', JStr ''list''),
                (''results'',
                 JArr [JObj [(''id'', JStr ''db0''), (''title'', JArr [])],
                       JObj [(''id'', JStr ''db1''),
                             (''title'', JArr [JObj [(''plain_text'', JStr '''')],
                                               JObj [(''plain_text'', JStr ''tail'')]])],
                       JObj [(''id'', JStr ''db2''),
                             (''title'', JArr [JObj [(''type'', JStr ''mention'')]])],
                       JObj [(''id'', JStr ''db3''),
                             (''title'', JArr [JObj [(''plain_text'', JStr ''Roadmap'')]])]])])"

definition databases_records :: "jsval list" where
  "databases_records =
     [JObj [(''id'', JStr ''db0''), (''title'', JStr ''Untitled Database'')],
      JObj [(''id'', JStr ''db1''), (''title'', JStr ''Untitled Database'')],
      JObj [(''id'', JStr ''db2''), (''title'', JStr ''Untitled Database'')],
      JObj [(''id'', JStr ''db3''), (''title'', JStr ''Roadmap'')]]"

definition bag_a :: "(string \<times> jsval) list" where
  "bag_a =
     [(''Headline'',
       JObj [(''type'', JStr ''title''),
             (''title'', JArr [JObj [(''plain_text'', JStr ''Launch'')],
                               JObj [(''plain_text'', JStr '' day'')]])]),
      (''Media'', JObj [(''type'', JStr ''url''), (''url'', JStr ''http://a, http://b ,'')]),
      (''Caption'', JObj [(''type'', JStr ''rich_text''), (''rich_text'', JArr [])]),
      (''Scheduled Date'',
       JObj [(''type'', JStr ''date''),
             (''date'', JObj [(''start'', JStr ''2024-05-01''), (''end'', JNull)])])]"

definition bag_b :: "(string \<times> jsval) list" where
  "bag_b =
     [(''Media'', JObj [(''type'', JStr ''url''), (''url'', JNull)]),
      (''Scheduled Date'', JObj [(''type'', JStr ''date''), (''date'', JNull)])]"

definition page_a :: jsval where
  "page_a = JObj [(''id'', JStr ''pA''), (''properties'', JObj bag_a)]"

definition page_b :: jsval where
  "page_b = JObj [(''id'', JStr ''pB''), (''properties'', JObj bag_b)]"

definition page_c :: jsval where
  "page_c = JObj [(''id'', JStr ''pC''), (''properties'', JObj [])]"

definition posts_response :: jsval where
  "posts_response =
     JObj [(''object'', JStr ''list''), (''results'', JArr [page_a, page_b, page_c])]"

definition posts_upstream :: upstream where
  "posts_upstream call = Inr posts_response"

definition posts_records :: "jsval list" where
  "posts_records =
     [JObj [(''id'', JStr ''pA''), (''headline'', JStr ''Launch''),
            (''media'', JArr [JStr ''http://a'', JStr ''http://b'']),
            (''caption'', JStr ''''), (''date'', JStr ''2024-05-01'')],
      JObj [(''id'', JStr ''pB''), (''headline'', JNull), (''media'', JArr []),
            (''caption'', JNull)],
      JObj [(''id'', JStr ''pC''), (''headline'', JNull), (''media'', JArr []),
            (''caption'', JNull), (''date'', JNull)]]"

section \<open>Basic facts\<close>

lemma and_then_Inl [simp]: "and_then (Inl e) f = Inl e"
  by (simp add: and_then_def)

lemma and_then_Inr [simp]: "and_then (Inr x) f = f x"
  by (simp add: and_then_def)

lemma and_then_eq_Inr: "and_then r f = Inr y \<longleftrightarrow> (\<exists>x. r = Inr x \<and> f x = Inr y)"
  by (cases r) simp_all

lemma map_throwing_length: "map_throwing f xs = Inr ys \<Longrightarrow> length ys = length xs"
  by (induction xs arbitrary: ys) (auto simp: and_then_eq_Inr)

lemma map_throwing_nth:
  "map_throwing f xs = Inr ys \<Longrightarrow> i < length xs \<Longrightarrow> f (xs ! i) = Inr (ys ! i)"
proof (induction xs arbitrary: ys i)
  case Nil
  then show ?case by simp
next
  case (Cons x xs)
  from Cons.prems(1) obtain y ys' where y: "f x = Inr y"
    and ys': "map_throwing f xs = Inr ys'" and ys: "ys = y # ys'"
    by (auto simp: and_then_eq_Inr)
  show ?case
  proof (cases i)
    case 0
    with y ys show ?thesis by simp
  next
    case (Suc j)
    with Cons.prems(2) have "j < length xs" by simp
    with Cons.IH [OF ys'] Suc ys show ?thesis by simp
  qed
qed

lemma wire_elements_length [simp]: "length (wire_elements xs) = length xs"
  by (induction xs) simp_all

lemma wire_elements_nth:
  "i < length xs \<Longrightarrow>
   wire_elements xs ! i = (if xs ! i = JUndefined then JNull else wire (xs ! i))"
proof (induction xs arbitrary: i)
  case Nil
  then show ?case by simp
next
  case (Cons x xs)
  then show ?case by (cases i) simp_all
qed

lemma wire_elements_strings [simp]: "wire_elements (map JStr ws) = map JStr ws"
  by (induction ws) simp_all

lemma field_wire_fields:
  "distinct (map fst kvs) \<Longrightarrow> field (wire_fields kvs) k = wire (field kvs k)"
proof (induction kvs)
  case Nil
  then show ?case by (simp add: field_def)
next
  case (Cons kv kvs)
  then have IH: "field (wire_fields kvs) k = wire (field kvs k)" by simp
  show ?case
  proof (cases "fst kv = k")
    case True
    with Cons.prems have "map_of kvs k = None"
      by (cases kv) (auto simp: map_of_eq_None_iff)
    then have "field kvs k = JUndefined" by (simp add: field_def)
    with IH True show ?thesis by (cases kv) (simp add: field_def)
  next
    case False
    with IH show ?thesis by (cases kv) (simp add: field_def)
  qed
qed

lemma truthy_not_nullish: "truthy v \<Longrightarrow> \<not> nullish v"
  by (cases v) simp_all

lemma split_not_Nil: "split sep s \<noteq> []"
  by (induction s) (auto split: list.splits)

lemma join_Cons: "ws \<noteq> [] \<Longrightarrow> join sep (w # ws) = w @ sep @ join sep ws"
  by (cases ws) simp_all

lemma join_split: "join [sep] (split sep s) = s"
proof (induction s)
  case Nil
  then show ?case by simp
next
  case (Cons c cs)
  show ?case
  proof (cases "c = sep")
    case True
    with Cons show ?thesis by (simp add: join_Cons split_not_Nil)
  next
    case False
    obtain w ws where w: "split sep cs = w # ws"
      using split_not_Nil [of sep cs] by (cases "split sep cs") auto
    with Cons False show ?thesis by (cases ws) simp_all
  qed
qed

lemma split_no_separator: "w \<in> set (split sep s) \<Longrightarrow> sep \<notin> set w"
proof (induction s arbitrary: w)
  case Nil
  then show ?case by simp
next
  case (Cons c cs)
  then show ?case by (auto split: if_splits list.splits)
qed

lemma length_split: "length (split sep s) = Suc (length (filter (\<lambda>c. c = sep) s))"
  by (induction s) (auto split: list.splits simp: split_not_Nil)

lemma trim_decompose:
  "\<exists>l r. s = l @ trim s @ r \<and> (\<forall>c \<in> set l. is_white_space c) \<and> (\<forall>c \<in> set r. is_white_space c)"
proof -
  let ?a = "takeWhile is_white_space s"
  let ?m = "dropWhile is_white_space s"
  let ?b = "rev (takeWhile is_white_space (rev ?m))"
  have "rev ?m = takeWhile is_white_space (rev ?m) @ dropWhile is_white_space (rev ?m)"
    by simp
  then have "?m = trim s @ ?b"
    unfolding trim_def by (metis rev_append rev_rev_ident)
  then have "s = ?a @ trim s @ ?b"
    by (metis takeWhile_dropWhile_id)
  moreover have "\<forall>c \<in> set ?a. is_white_space c"
    by (auto dest: set_takeWhileD)
  moreover have "\<forall>c \<in> set ?b. is_white_space c"
    by (auto dest: set_takeWhileD)
  ultimately show ?thesis by blast
qed

lemma trim_no_leading: "trim s \<noteq> [] \<Longrightarrow> \<not> is_white_space (hd (trim s))"
proof -
  assume ne: "trim s \<noteq> []"
  let ?m = "dropWhile is_white_space s"
  have m: "?m \<noteq> []"
  proof
    assume "?m = []"
    then have "trim s = []" by (simp only: trim_def rev.simps dropWhile.simps)
    with ne show False by simp
  qed
  then have h: "\<not> is_white_space (hd ?m)" by (rule hd_dropWhile)
  have "rev ?m = takeWhile is_white_space (rev ?m) @ dropWhile is_white_space (rev ?m)"
    by simp
  then have "?m = trim s @ rev (takeWhile is_white_space (rev ?m))"
    unfolding trim_def by (metis rev_append rev_rev_ident)
  with ne have "hd ?m = hd (trim s)" by (metis hd_append2)
  with h show ?thesis by simp
qed

lemma trim_no_trailing: "trim s \<noteq> [] \<Longrightarrow> \<not> is_white_space (last (trim s))"
proof -
  assume ne: "trim s \<noteq> []"
  let ?r = "dropWhile is_white_space (rev (dropWhile is_white_space s))"
  have r: "?r \<noteq> []" using ne by (simp add: trim_def)
  then have "\<not> is_white_space (hd ?r)" by (rule hd_dropWhile)
  with r show ?thesis by (simp add: trim_def last_rev)
qed

lemma filter_truthy_strings:
  "filter truthy (map (\<lambda>u. JStr (f u)) ws) = map JStr (filter (\<lambda>u. u \<noteq> []) (map f ws))"
  by (induction ws) simp_all

lemma media_list_string:
  "media_list (JStr s) =
     Inr (JArr (map JStr (filter (\<lambda>u. u \<noteq> []) (map trim (split CHR '','' s)))))"
  by (simp add: media_list_def filter_truthy_strings)

lemma media_list_empty: "media_list (JStr []) = Inr (JArr [])"
  by (simp add: media_list_def trim_def)

lemma respond_simps [simp]:
  "status (respond code v cs ls) = code"
  "sent (respond code v cs ls) = wire v"
  "calls (respond code v cs ls) = cs"
  "logged (respond code v cs ls) = ls"
  by (simp_all add: respond_def)

lemma wire_fields_keys:
  "fst ` set (wire_fields kvs) = fst ` {kv \<in> set kvs. snd kv \<noteq> JUndefined}"
  by (induction kvs) auto

lemma post_of_page_Inr:
  assumes "post_of_page page = Inr post"
  shows "\<exists>properties id headline url media caption date.
           js_get page ''properties'' = Inr properties \<and>
           js_get page ''id'' = Inr id \<and>
           getProp properties ''Headline'' ''title'' ''plain_text'' = Inr headline \<and>
           getProp properties ''Media'' ''url'' ''plain_text'' = Inr url \<and>
           media_list (js_or url (JStr '''')) = Inr media \<and>
           getProp properties ''Caption'' ''rich_text'' ''plain_text'' = Inr caption \<and>
           getProp properties ''Scheduled Date'' ''date'' ''plain_text'' = Inr date \<and>
           post = JObj [(''id'', id), (''headline'', headline), (''media'', media),
                        (''caption'', caption), (''date'', date)]"
  using assms unfolding post_of_page_def and_then_eq_Inr by blast

lemma get_posts_sent_array:
  assumes up: "upstream (query_call (field body ''notionToken'') (field body ''databaseId''))
                 = Inr response"
    and res: "js_get response ''results'' = Inr (JArr pages)"
    and sent: "sent (get_posts_with failure upstream body) = JArr records"
  shows "\<exists>posts. map_throwing post_of_page pages = Inr posts \<and> records = wire_elements posts"
proof (cases "map_throwing post_of_page pages")
  case (Inl e)
  with up res sent show ?thesis
    by (simp add: get_posts_with_def Let_def js_map_def split: if_splits)
next
  case (Inr posts)
  with up res sent show ?thesis
    by (simp add: get_posts_with_def Let_def js_map_def split: if_splits)
qed

text \<open>
  The record at position \<open>i\<close> of a successful answer of \<^verbatim>\<open>/api/get-posts\<close>: the
  fields of the post made from page \<open>i\<close>, as they go over the wire.
\<close>

lemma get_posts_record:
  assumes up: "upstream (query_call (field body ''notionToken'') (field body ''databaseId''))
                 = Inr response"
    and res: "js_get response ''results'' = Inr (JArr pages)"
    and sent: "sent (get_posts_with failure upstream body) = JArr records"
    and i: "i < length pages"
    and props: "js_get (pages ! i) ''properties'' = Inr properties"
  shows "\<exists>id headline url media caption date kvs.
           getProp properties ''Headline'' ''title'' ''plain_text'' = Inr headline \<and>
           getProp properties ''Media'' ''url'' ''plain_text'' = Inr url \<and>
           media_list (js_or url (JStr '''')) = Inr media \<and>
           getProp properties ''Caption'' ''rich_text'' ''plain_text'' = Inr caption \<and>
           getProp properties ''Scheduled Date'' ''date'' ''plain_text'' = Inr date \<and>
           length records = length pages \<and>
           records ! i = JObj kvs \<and>
           kvs = wire_fields [(''id'', id), (''headline'', headline), (''media'', media),
                              (''caption'', caption), (''date'', date)] \<and>
           field kvs ''headline'' = wire headline \<and>
           field kvs ''media'' = wire media \<and>
           field kvs ''caption'' = wire caption \<and>
           field kvs ''date'' = wire date"
proof -
  from get_posts_sent_array [OF up res sent] obtain posts
    where posts: "map_throwing post_of_page pages = Inr posts"
      and records: "records = wire_elements posts"
    by blast
  from map_throwing_nth [OF posts i] have "post_of_page (pages ! i) = Inr (posts ! i)" .
  from post_of_page_Inr [OF this] props obtain id headline url media caption date
    where h: "getProp properties ''Headline'' ''title'' ''plain_text'' = Inr headline"
      and u: "getProp properties ''Media'' ''url'' ''plain_text'' = Inr url"
      and m: "media_list (js_or url (JStr '''')) = Inr media"
      and c: "getProp properties ''Caption'' ''rich_text'' ''plain_text'' = Inr caption"
      and d: "getProp properties ''Scheduled Date'' ''date'' ''plain_text'' = Inr date"
      and post: "posts ! i = JObj [(''id'', id), (''headline'', headline), (''media'', media),
                        (''caption'', caption), (''date'', date)]"
    by auto
  let ?kvs = "[(''id'', id), (''headline'', headline), (''media'', media),
              (''caption'', caption), (''date'', date)]"
  have len: "length records = length pages"
    using records map_throwing_length [OF posts] by simp
  have "i < length posts" using i map_throwing_length [OF posts] by simp
  then have rec: "records ! i = JObj (wire_fields ?kvs)"
    using records post by (simp add: wire_elements_nth)
  have dist: "distinct (map fst ?kvs)" by simp
  have f: "\<And>k. field (wire_fields ?kvs) k = wire (field ?kvs k)"
    by (rule field_wire_fields [OF dist])
  have "field (wire_fields ?kvs) ''headline'' = wire headline"
    "field (wire_fields ?kvs) ''media'' = wire media"
    "field (wire_fields ?kvs) ''caption'' = wire caption"
    "field (wire_fields ?kvs) ''date'' = wire date"
    unfolding f by (simp_all add: field_def)
  with h u m c d len rec show ?thesis by blast
qed

lemma absent_or_empty_falsy: "absent_or_empty body k \<Longrightarrow> \<not> truthy (field body k)"
  by (auto simp: absent_or_empty_def field_def)

lemma update_message_strings:
  "update_message (JStr p) (JStr d) = Inr (''Post '' @ p @ '' updated to '' @ d)"
  by (simp add: update_message_def)

lemma update_post_date_accepted:
  assumes token: "truthy (field body ''notionToken'')"
    and page: "field body ''pageId'' = JStr p" "p \<noteq> []"
    and date: "field body ''newDate'' = JStr d" "d \<noteq> []"
    and up: "upstream (update_call (field body ''notionToken'') (JStr p) (JStr d)) = Inr r"
  shows "update_post_date upstream body =
           respond 200
             (JObj [(''success'', JBool True),
                    (''message'', JStr (''Post '' @ p @ '' updated to '' @ d))])
             [update_call (field body ''notionToken'') (JStr p) (JStr d)] []"
  using assms by (simp add: update_post_date_def update_message_strings)

lemma database_summary_Inr:
  assumes "database_summary db = Inr summary"
  shows "\<exists>id title fragment.
           js_get db ''id'' = Inr id \<and> js_get db ''title'' = Inr title \<and>
           js_get title ''0'' = Inr fragment \<and>
           summary = JObj [(''id'', id),
                           (''title'', js_or (opt_get fragment ''plain_text'')
                                             (JStr ''Untitled Database''))]"
  using assms unfolding database_summary_def and_then_eq_Inr by blast

lemma get_databases_sent_array:
  assumes up: "upstream (search_call (field body ''notionToken'')) = Inr response"
    and res: "js_get response ''results'' = Inr (JArr dbs)"
    and sent: "sent (get_databases_with failure upstream body) = JArr records"
  shows "\<exists>summaries. map_throwing database_summary dbs = Inr summaries \<and>
           records = wire_elements summaries"
proof (cases "map_throwing database_summary dbs")
  case (Inl e)
  with up res sent show ?thesis
    by (simp add: get_databases_with_def Let_def js_map_def split: if_splits)
next
  case (Inr summaries)
  with up res sent show ?thesis
    by (simp add: get_databases_with_def Let_def js_map_def split: if_splits)
qed

text \<open>
  The record at position \<open>i\<close> of a successful answer of \<^verbatim>\<open>/api/get-databases\<close>.
\<close>

lemma get_databases_record:
  assumes up: "upstream (search_call (field body ''notionToken'')) = Inr response"
    and res: "js_get response ''results'' = Inr (JArr dbs)"
    and sent: "sent (get_databases_with failure upstream body) = JArr records"
    and i: "i < length dbs"
    and title: "js_member (dbs ! i) ''title'' = JArr fragments"
  shows "length records = length dbs \<and>
         js_member (records ! i) ''title'' =
           wire (js_or (opt_get (js_member (JArr fragments) ''0'') ''plain_text'')
                       (JStr ''Untitled Database''))"
proof -
  from get_databases_sent_array [OF up res sent] obtain summaries
    where sums: "map_throwing database_summary dbs = Inr summaries"
      and records: "records = wire_elements summaries"
    by blast
  from map_throwing_nth [OF sums i]
  have "database_summary (dbs ! i) = Inr (summaries ! i)" .
  from database_summary_Inr [OF this] obtain id t fragment
    where t: "js_get (dbs ! i) ''title'' = Inr t"
      and fr: "js_get t ''0'' = Inr fragment"
      and summary: "summaries ! i =
             JObj [(''id'', id),
                   (''title'', js_or (opt_get fragment ''plain_text'')
                                     (JStr ''Untitled Database''))]"
    by blast
  from t title have "t = JArr fragments"
    by (simp add: js_get_def split: if_splits)
  with fr have fragment: "fragment = js_member (JArr fragments) ''0''"
    by (simp add: js_get_def)
  let ?title = "js_or (opt_get fragment ''plain_text'') (JStr ''Untitled Database'')"
  let ?kvs = "[(''id'', id), (''title'', ?title)]"
  have len: "length records = length dbs"
    using records map_throwing_length [OF sums] by simp
  have "i < length summaries" using i map_throwing_length [OF sums] by simp
  then have rec: "records ! i = JObj (wire_fields ?kvs)"
    using records summary by (simp add: wire_elements_nth)
  have dist: "distinct (map fst ?kvs)" by simp
  have "field (wire_fields ?kvs) ''title'' = wire (field ?kvs ''title'')"
    by (rule field_wire_fields [OF dist])
  then have "js_member (records ! i) ''title'' = wire ?title"
    using rec by (simp add: field_def)
  with len fragment show ?thesis by simp
qed

lemma getProp_absent:
  "map_of bag name = None \<Longrightarrow> getProp (JObj bag) name type subType = Inr JNull"
  by (simp add: getProp_def js_get_def field_def)

lemma getProp_text:
  assumes "field bag name = JObj property" and "type = ''title'' \<or> type = ''rich_text''"
    and "field property type = JArr fragments"
  shows "getProp (JObj bag) name type subType =
           Inr (js_or (opt_get (js_member (JArr fragments) ''0'') subType) (JStr ''''))"
  using assms by (auto simp: getProp_def js_get_def)

lemma getProp_url:
  "field bag name = JObj property \<Longrightarrow>
   getProp (JObj bag) name ''url'' subType = Inr (field property ''url'')"
  by (simp add: getProp_def js_get_def)

lemma getProp_date:
  "field bag name = JObj property \<Longrightarrow>
   getProp (JObj bag) name ''date'' subType = Inr (opt_get (field property ''date'') ''start'')"
  by (simp add: getProp_def js_get_def)

lemma posts_upstream_sent:
  "sent (get_posts_with failure posts_upstream posts_body) = JArr posts_records"
  by (simp add: get_posts_with_def posts_upstream_def posts_response_def posts_body_def
      posts_records_def page_a_def page_b_def page_c_def bag_a_def bag_b_def field_def js_get_def js_map_def post_of_page_def
      getProp_def opt_get_def js_or_def media_list_def trim_def is_white_space_def)

lemma posts_example:
  "posts_upstream (query_call (field posts_body ''notionToken'') (field posts_body ''databaseId''))
     = Inr posts_response"
  "js_get posts_response ''results'' = Inr (JArr [page_a, page_b, page_c])"
  "js_get ([page_a, page_b, page_c] ! 0) ''properties'' = Inr (JObj bag_a)"
  "js_get ([page_a, page_b, page_c] ! 1) ''properties'' = Inr (JObj bag_b)"
  "js_get ([page_a, page_b, page_c] ! 2) ''properties'' = Inr (JObj [])"
  by (simp_all add: posts_upstream_def posts_response_def page_a_def page_b_def page_c_def
      js_get_def field_def)

lemma media_list_falsy: "\<not> truthy url \<Longrightarrow> media_list (js_or url (JStr '''')) = Inr (JArr [])"
  by (simp add: js_or_def media_list_empty)

lemma wire_fields_absent:
  "field kvs k = JUndefined \<Longrightarrow> distinct (map fst kvs) \<Longrightarrow> k \<notin> fst ` set (wire_fields kvs)"
proof (induction kvs)
  case Nil
  then show ?case by simp
next
  case (Cons kv kvs)
  show ?case
  proof (cases "fst kv = k")
    case True
    with Cons.prems have "snd kv = JUndefined" and "k \<notin> fst ` set kvs"
      by (cases kv; simp add: field_def; force)+
    moreover have "fst ` set (wire_fields kvs) \<subseteq> fst ` set kvs"
      unfolding wire_fields_keys by auto
    ultimately show ?thesis by auto
  next
    case False
    with Cons.prems have "field kvs k = JUndefined" and "distinct (map fst kvs)"
      by (cases kv; simp add: field_def)+
    with Cons.IH have "k \<notin> fst ` set (wire_fields kvs)" by simp
    with False show ?thesis by simp
  qed
qed

lemma set_trim_subset: "set (trim s) \<subseteq> set s"
proof -
  from trim_decompose [of s] obtain l r where "s = l @ trim s @ r" by blast
  then have "set s = set l \<union> set (trim s) \<union> set r"
    by (metis set_append sup_assoc)
  then show ?thesis by blast
qed

text \<open>
  What \<^verbatim>\<open>split\<close>, \<^verbatim>\<open>trim\<close> and \<^verbatim>\<open>filter(Boolean)\<close> leave of a string: pieces that
  are not empty, hold no comma, and neither begin nor end with white space.
\<close>

lemma media_segments_clean:
  assumes "u \<in> set (filter (\<lambda>u. u \<noteq> []) (map trim (split CHR '','' s)))"
  shows "u \<noteq> [] \<and> CHR '','' \<notin> set u \<and> \<not> is_white_space (hd u) \<and> \<not> is_white_space (last u)"
proof -
  from assms obtain w where w: "w \<in> set (split CHR '','' s)" and u: "u = trim w" and ne: "u \<noteq> []"
    by auto
  from split_no_separator [OF w] set_trim_subset [of w] u have "CHR '','' \<notin> set u" by blast
  moreover from ne u have "\<not> is_white_space (hd u)" "\<not> is_white_space (last u)"
    using trim_no_leading [of w] trim_no_trailing [of w] by simp_all
  ultimately show ?thesis using ne by simp
qed

lemma update_post_date_resolved:
  assumes "upstream (update_call (field body ''notionToken'') (field body ''pageId'')
             (field body ''newDate'')) = Inr r"
  shows "update_post_date upstream body =
     (if \<not> truthy (field body ''notionToken'') \<or> \<not> truthy (field body ''pageId'') \<or>
         \<not> truthy (field body ''newDate'')
      then respond 400 (JObj [(''error'', JStr ''Token, Page ID, and new date are required.'')])
             [] []
      else
        (case update_message (field body ''pageId'') (field body ''newDate'') of
           Inr message \<Rightarrow>
             respond 200 (JObj [(''success'', JBool True), (''message'', JStr message)])
               [update_call (field body ''notionToken'') (field body ''pageId'')
                  (field body ''newDate'')] []
         | Inl error \<Rightarrow>
             respond 500 (JObj [(''error'', JStr ''Failed to update post date in Notion.'')])
               [update_call (field body ''notionToken'') (field body ''pageId'')
                  (field body ''newDate'')]
               [(''Error updating post date:'', error_body error)]))"
  using assms by (simp add: update_post_date_def Let_def)

lemma update_post_date_200:
  assumes "status (update_post_date upstream body) = 200"
  shows "\<exists>message.
           update_message (field body ''pageId'') (field body ''newDate'') = Inr message \<and>
           sent (update_post_date upstream body) =
             JObj [(''success'', JBool True), (''message'', JStr message)]"
proof (cases "upstream (update_call (field body ''notionToken'') (field body ''pageId'')
             (field body ''newDate''))")
  case (Inl e)
  with assms show ?thesis
    by (simp add: update_post_date_def Let_def split: if_splits)
next
  case (Inr r)
  show ?thesis
  proof (cases "update_message (field body ''pageId'') (field body ''newDate'')")
    case (Inl e)
    with assms Inr show ?thesis
      by (simp add: update_post_date_def Let_def split: if_splits)
  next
    case m: (Inr message)
    with assms Inr show ?thesis
      by (simp add: update_post_date_def Let_def split: if_splits)
  qed
qed

section \<open>Properties of the handlers\<close>

text \<open>
  C1. On each of the three routes, a request in which a required field is absent or is
  the empty string is answered with status 400 and the body \<^verbatim>\<open>{ error: ... }\<close>, and no
  call to the external API is made.
\<close>

theorem missing_field_rejected:
  "(absent_or_empty body ''notionToken'' \<longrightarrow>
      status (get_databases_with failure upstream body) = 400 \<and>
      sent (get_databases_with failure upstream body) =
        JObj [(''error'', JStr ''Notion token is required.'')] \<and>
      calls (get_databases_with failure upstream body) = []) \<and>
   (absent_or_empty body ''notionToken'' \<or> absent_or_empty body ''databaseId'' \<longrightarrow>
      status (get_posts_with failure upstream body) = 400 \<and>
      sent (get_posts_with failure upstream body) =
        JObj [(''error'', JStr ''Notion token and Database ID are required.'')] \<and>
      calls (get_posts_with failure upstream body) = []) \<and>
   (absent_or_empty body ''notionToken'' \<or> absent_or_empty body ''pageId'' \<or>
    absent_or_empty body ''newDate'' \<longrightarrow>
      status (update_post_date upstream body) = 400 \<and>
      sent (update_post_date upstream body) =
        JObj [(''error'', JStr ''Token, Page ID, and new date are required.'')] \<and>
      calls (update_post_date upstream body) = [])"
proof (intro conjI impI)
  assume "absent_or_empty body ''notionToken''"
  then have "\<not> truthy (field body ''notionToken'')" by (rule absent_or_empty_falsy)
  then have "get_databases_with failure upstream body =
      respond 400 (JObj [(''error'', JStr ''Notion token is required.'')]) [] []"
    by (simp add: get_databases_with_def)
  then show "status (get_databases_with failure upstream body) = 400"
    and "sent (get_databases_with failure upstream body) =
        JObj [(''error'', JStr ''Notion token is required.'')]"
    and "calls (get_databases_with failure upstream body) = []"
    by simp_all
next
  assume "absent_or_empty body ''notionToken'' \<or> absent_or_empty body ''databaseId''"
  then have "\<not> truthy (field body ''notionToken'') \<or> \<not> truthy (field body ''databaseId'')"
    by (auto dest: absent_or_empty_falsy)
  then have "get_posts_with failure upstream body =
      respond 400 (JObj [(''error'', JStr ''Notion token and Database ID are required.'')]) [] []"
    by (auto simp add: get_posts_with_def)
  then show "status (get_posts_with failure upstream body) = 400"
    and "sent (get_posts_with failure upstream body) =
        JObj [(''error'', JStr ''Notion token and Database ID are required.'')]"
    and "calls (get_posts_with failure upstream body) = []"
    by simp_all
next
  assume "absent_or_empty body ''notionToken'' \<or> absent_or_empty body ''pageId'' \<or>
    absent_or_empty body ''newDate''"
  then have "\<not> truthy (field body ''notionToken'') \<or> \<not> truthy (field body ''pageId'') \<or>
      \<not> truthy (field body ''newDate'')"
    by (auto dest: absent_or_empty_falsy)
  then have "update_post_date upstream body =
      respond 400 (JObj [(''error'', JStr ''Token, Page ID, and new date are required.'')]) [] []"
    by (auto simp add: update_post_date_def)
  then show "status (update_post_date upstream body) = 400"
    and "sent (update_post_date upstream body) =
        JObj [(''error'', JStr ''Token, Page ID, and new date are required.'')]"
    and "calls (update_post_date upstream body) = []"
    by simp_all
qed

theorem missing_field_rejected_witness:
  "absent_or_empty [(''notionToken'', JStr '''')] ''notionToken'' \<and>
   status (get_databases accepting_upstream [(''notionToken'', JStr '''')]) = 400 \<and>
   calls (get_databases accepting_upstream [(''notionToken'', JStr '''')]) = [] \<and>
   absent_or_empty [(''notionToken'', JStr ''t'')] ''databaseId'' \<and>
   status (get_posts accepting_upstream [(''notionToken'', JStr ''t'')]) = 400 \<and>
   calls (get_posts accepting_upstream [(''notionToken'', JStr ''t'')]) = [] \<and>
   absent_or_empty [(''notionToken'', JStr ''t''), (''pageId'', JStr ''p1'')] ''newDate'' \<and>
   status (update_post_date accepting_upstream
             [(''notionToken'', JStr ''t''), (''pageId'', JStr ''p1'')]) = 400 \<and>
   calls (update_post_date accepting_upstream
             [(''notionToken'', JStr ''t''), (''pageId'', JStr ''p1'')]) = []"
proof -
  have a: "absent_or_empty [(''notionToken'', JStr '''')] ''notionToken''"
    by (simp add: absent_or_empty_def)
  have b: "absent_or_empty [(''notionToken'', JStr ''t'')] ''databaseId''"
    by (simp add: absent_or_empty_def)
  have c: "absent_or_empty [(''notionToken'', JStr ''t''), (''pageId'', JStr ''p1'')] ''newDate''"
    by (simp add: absent_or_empty_def)
  show ?thesis
    using a b c
      missing_field_rejected [of "[(''notionToken'', JStr '''')]"
        "''Failed to fetch databases from Notion.''" accepting_upstream]
      missing_field_rejected [of "[(''notionToken'', JStr ''t'')]"
        "''Failed to fetch posts from Notion.''" accepting_upstream]
      missing_field_rejected [of "[(''notionToken'', JStr ''t''), (''pageId'', JStr ''p1'')]"
        "''Failed to fetch posts from Notion.''" accepting_upstream]
    unfolding get_databases_def get_posts_def by blast
qed

text \<open>
  C2. \<^verbatim>\<open>getProp\<close> returns \<^verbatim>\<open>null\<close> for a name that is no field of the property bag
  (and no member of \<^verbatim>\<open>Object.prototype\<close>, which the lookup of JavaScript would find);
  a record of a successful answer of \<^verbatim>\<open>/api/get-posts\<close> whose page has no
  \<^verbatim>\<open>Headline\<close> property has \<^verbatim>\<open>headline: null\<close>.
\<close>

theorem absent_property_is_null:
  assumes "upstream (query_call (field body ''notionToken'') (field body ''databaseId''))
             = Inr response"
    and "js_get response ''results'' = Inr (JArr pages)"
    and "sent (get_posts_with failure upstream body) = JArr records"
    and "i < length pages"
    and "js_get (pages ! i) ''properties'' = Inr (JObj bag)"
  shows "(\<forall>name type subType.
            map_of bag name = None \<longrightarrow> name \<notin> set object_prototype_keys \<longrightarrow>
            getProp (JObj bag) name type subType = Inr JNull) \<and>
         (map_of bag ''Headline'' = None \<longrightarrow>
            js_member (records ! i) ''headline'' = JNull \<and>
            js_member (records ! i) ''headline'' \<noteq> JStr '''')"
proof (intro conjI allI impI)
  fix name type subType
  assume "map_of bag name = None"
  then show "getProp (JObj bag) name type subType = Inr JNull" by (rule getProp_absent)
next
  assume absent: "map_of bag ''Headline'' = None"
  from get_posts_record [OF assms] obtain headline kvs
    where "getProp (JObj bag) ''Headline'' ''title'' ''plain_text'' = Inr headline"
      and "records ! i = JObj kvs" and "field kvs ''headline'' = wire headline"
    by blast
  with getProp_absent [OF absent, of "''title''" "''plain_text''"]
  show "js_member (records ! i) ''headline'' = JNull" by simp
  then show "js_member (records ! i) ''headline'' \<noteq> JStr ''''" by simp
qed

theorem absent_property_is_null_witness:
  "sent (get_posts posts_upstream posts_body) = JArr posts_records \<and>
   map_of bag_b ''Headline'' = None \<and>
   ''Headline'' \<notin> set object_prototype_keys \<and>
   getProp (JObj bag_b) ''Headline'' ''title'' ''plain_text'' = Inr JNull \<and>
   js_member (posts_records ! 1) ''headline'' = JNull"
proof -
  have sent: "sent (get_posts_with ''Failed to fetch posts from Notion.''
                 posts_upstream posts_body) = JArr posts_records"
    by (rule posts_upstream_sent)
  have absent: "map_of bag_b ''Headline'' = None" by (simp add: bag_b_def)
  have own: "''Headline'' \<notin> set object_prototype_keys"
    by (simp add: object_prototype_keys_def)
  have i: "1 < length [page_a, page_b, page_c]" by simp
  note t = absent_property_is_null [OF posts_example(1) posts_example(2) sent i posts_example(4)]
  from conjunct1 [OF t] absent own
  have g: "getProp (JObj bag_b) ''Headline'' ''title'' ''plain_text'' = Inr JNull" by blast
  from conjunct2 [OF t] absent
  have h: "js_member (posts_records ! 1) ''headline'' = JNull" by blast
  from sent absent own g h show ?thesis by (simp only: get_posts_def simp_thms)
qed

text \<open>
  C3. For a property that is present with a fragment array under its kind \<^verbatim>\<open>title\<close> or
  \<^verbatim>\<open>rich_text\<close>, \<^verbatim>\<open>getProp\<close> returns the empty string when the array is empty, and
  the \<^verbatim>\<open>plain_text\<close> string of the first fragment otherwise.
\<close>

theorem text_property_first_fragment:
  assumes "field bag name = JObj property"
    and "type = ''title'' \<or> type = ''rich_text''"
    and "field property type = JArr fragments"
  shows "(fragments = [] \<longrightarrow>
            getProp (JObj bag) name type ''plain_text'' = Inr (JStr '''') \<and>
            getProp (JObj bag) name type ''plain_text'' \<noteq> Inr JNull) \<and>
         (\<forall>fragment rest s.
            fragments = fragment # rest \<longrightarrow> opt_get fragment ''plain_text'' = JStr s \<longrightarrow>
            getProp (JObj bag) name type ''plain_text'' = Inr (JStr s))"
proof -
  note g = getProp_text [OF assms, of "''plain_text''"]
  show ?thesis
  proof (intro conjI allI impI)
    assume "fragments = []"
    with g show e: "getProp (JObj bag) name type ''plain_text'' = Inr (JStr '''')"
      by (simp add: opt_get_def js_or_def)
    then show "getProp (JObj bag) name type ''plain_text'' \<noteq> Inr JNull" by simp
  next
    fix fragment rest s
    assume "fragments = fragment # rest" and "opt_get fragment ''plain_text'' = JStr s"
    with g show "getProp (JObj bag) name type ''plain_text'' = Inr (JStr s)"
      by (simp add: js_or_def)
  qed
qed

theorem text_property_first_fragment_witness:
  "getProp (JObj bag_a) ''Caption'' ''rich_text'' ''plain_text'' = Inr (JStr '''') \<and>
   getProp (JObj bag_a) ''Headline'' ''title'' ''plain_text'' = Inr (JStr ''Launch'')"
proof -
  let ?first = "JObj [(''plain_text'', JStr ''Launch'')]"
  let ?rest = "[JObj [(''plain_text'', JStr '' day'')]]"
  let ?headline = "[(''type'', JStr ''title''), (''title'', JArr (?first # ?rest))]"
  let ?caption = "[(''type'', JStr ''rich_text''), (''rich_text'', JArr [])]"
  have c: "field bag_a ''Caption'' = JObj ?caption" "field ?caption ''rich_text'' = JArr []"
    by (simp_all add: bag_a_def field_def)
  have h: "field bag_a ''Headline'' = JObj ?headline"
    "field ?headline ''title'' = JArr (?first # ?rest)"
    "opt_get ?first ''plain_text'' = JStr ''Launch''"
    by (simp_all add: bag_a_def field_def opt_get_def)
  have kinds: "''rich_text'' = ''title'' \<or> ''rich_text'' = ''rich_text''"
    "''title'' = ''title'' \<or> ''title'' = ''rich_text''"
    by simp_all
  from text_property_first_fragment [OF c(1) kinds(1) c(2)]
  have empty: "getProp (JObj bag_a) ''Caption'' ''rich_text'' ''plain_text'' = Inr (JStr '''')"
    by blast
  from text_property_first_fragment [OF h(1) kinds(2) h(2)] h(3)
  have first: "getProp (JObj bag_a) ''Headline'' ''title'' ''plain_text'' = Inr (JStr ''Launch'')"
    by blast
  from empty first show ?thesis by (rule conjI)
qed

text \<open>
  C4. In a record of a successful answer of \<^verbatim>\<open>/api/get-posts\<close> whose page has a
  \<^verbatim>\<open>Media\<close> property with a string as \<^verbatim>\<open>url\<close>, \<^verbatim>\<open>media\<close> is the list of the
  pieces of that string between commas, each trimmed, the empty ones left out. For
  \<^verbatim>\<open>http://a, http://b ,\<close> it is \<^verbatim>\<open>["http://a", "http://b"]\<close>.
\<close>

theorem media_split_trim_filter:
  assumes "upstream (query_call (field body ''notionToken'') (field body ''databaseId''))
             = Inr response"
    and "js_get response ''results'' = Inr (JArr pages)"
    and "sent (get_posts_with failure upstream body) = JArr records"
    and "i < length pages"
    and "js_get (pages ! i) ''properties'' = Inr (JObj bag)"
    and "field bag ''Media'' = JObj media"
    and "field media ''url'' = JStr url"
  shows "js_member (records ! i) ''media'' =
           JArr (map JStr (filter (\<lambda>u. u \<noteq> []) (map trim (split CHR '','' url)))) \<and>
         (url = ''http://a, http://b ,'' \<longrightarrow>
            js_member (records ! i) ''media'' = JArr [JStr ''http://a'', JStr ''http://b''])"
proof -
  from get_posts_record [OF assms(1-5)] obtain u m kvs
    where u: "getProp (JObj bag) ''Media'' ''url'' ''plain_text'' = Inr u"
      and m: "media_list (js_or u (JStr '''')) = Inr m"
      and rec: "records ! i = JObj kvs" "field kvs ''media'' = wire m"
    by blast
  from u getProp_url [OF assms(6), of "''plain_text''"] assms(7) have "u = JStr url" by simp
  with m have "m = JArr (map JStr (filter (\<lambda>u. u \<noteq> []) (map trim (split CHR '','' url))))"
    by (cases "url = []") (simp_all add: js_or_def media_list_string)
  with rec have general: "js_member (records ! i) ''media'' =
      JArr (map JStr (filter (\<lambda>u. u \<noteq> []) (map trim (split CHR '','' url))))"
    by simp
  have "map JStr (filter (\<lambda>u. u \<noteq> []) (map trim (split CHR '','' ''http://a, http://b ,'')))
      = [JStr ''http://a'', JStr ''http://b'']"
    by (simp add: trim_def is_white_space_def)
  with general show ?thesis by simp
qed

theorem media_split_trim_filter_witness:
  "sent (get_posts posts_upstream posts_body) = JArr posts_records \<and>
   field bag_a ''Media'' = JObj [(''type'', JStr ''url''), (''url'', JStr ''http://a, http://b ,'')] \<and>
   js_member (posts_records ! 0) ''media'' = JArr [JStr ''http://a'', JStr ''http://b'']"
proof -
  let ?media = "[(''type'', JStr ''url''), (''url'', JStr ''http://a, http://b ,'')]"
  have sent: "sent (get_posts_with ''Failed to fetch posts from Notion.''
                 posts_upstream posts_body) = JArr posts_records"
    by (rule posts_upstream_sent)
  have i: "0 < length [page_a, page_b, page_c]" by simp
  have m: "field bag_a ''Media'' = JObj ?media"
    "field ?media ''url'' = JStr ''http://a, http://b ,''"
    by (simp_all add: bag_a_def field_def)
  from conjunct2 [OF media_split_trim_filter
      [OF posts_example(1) posts_example(2) sent i posts_example(3) m]]
  have "js_member (posts_records ! 0) ''media'' = JArr [JStr ''http://a'', JStr ''http://b'']"
    by blast
  with sent m(1) show ?thesis by (simp only: get_posts_def simp_thms)
qed

text \<open>
  C5 as stated fails on a page whose \<^verbatim>\<open>Scheduled Date\<close> property is present with no
  date set (\<^verbatim>\<open>date: null\<close>): \<^verbatim>\<open>getProp\<close> does not return \<^verbatim>\<open>null\<close>, and the
  \<^verbatim>\<open>date\<close> of the record sent is neither a string nor \<^verbatim>\<open>null\<close>.
\<close>

theorem date_property_null_counterexample:
  "field bag_b ''Scheduled Date'' = JObj [(''type'', JStr ''date''), (''date'', JNull)] \<and>
   getProp (JObj bag_b) ''Scheduled Date'' ''date'' ''plain_text'' \<noteq> Inr JNull \<and>
   sent (get_posts posts_upstream posts_body) = JArr posts_records \<and>
   posts_records ! 1 =
     JObj [(''id'', JStr ''pB''), (''headline'', JNull), (''media'', JArr []),
           (''caption'', JNull)] \<and>
   js_member (posts_records ! 1) ''date'' = JUndefined"
proof -
  have "field bag_b ''Scheduled Date'' = JObj [(''type'', JStr ''date''), (''date'', JNull)]"
    by (simp add: bag_b_def field_def)
  moreover have "getProp (JObj bag_b) ''Scheduled Date'' ''date'' ''plain_text'' \<noteq> Inr JNull"
    by (simp add: bag_b_def getProp_def js_get_def field_def opt_get_def)
  moreover have "sent (get_posts posts_upstream posts_body) = JArr posts_records"
    unfolding get_posts_def by (rule posts_upstream_sent)
  moreover have "posts_records ! 1 =
     JObj [(''id'', JStr ''pB''), (''headline'', JNull), (''media'', JArr []),
           (''caption'', JNull)]"
    by (simp add: posts_records_def)
  moreover have "js_member (posts_records ! 1) ''date'' = JUndefined"
    by (simp add: posts_records_def field_def)
  ultimately show ?thesis by (intro conjI)
qed

text \<open>
  C5, as the code has it. For a property that is present, \<^verbatim>\<open>getProp\<close> with kind
  \<^verbatim>\<open>date\<close> returns the \<^verbatim>\<open>start\<close> string of the date object when there is one, and
  \<^verbatim>\<open>undefined\<close> (\<^verbatim>\<open>?.\<close> gives \<^verbatim>\<open>undefined\<close>, not \<^verbatim>\<open>null\<close>) when the date
  object is \<^verbatim>\<open>null\<close> or missing. In a record of a successful answer of
  \<^verbatim>\<open>/api/get-posts\<close>, \<^verbatim>\<open>date\<close> is that string in the first case; in the second the
  record has no field \<^verbatim>\<open>date\<close>; \<^verbatim>\<open>date\<close> is \<^verbatim>\<open>null\<close> when the page has no
  \<^verbatim>\<open>Scheduled Date\<close> property at all.
\<close>

theorem date_property_start_or_undefined:
  assumes "upstream (query_call (field body ''notionToken'') (field body ''databaseId''))
             = Inr response"
    and "js_get response ''results'' = Inr (JArr pages)"
    and "sent (get_posts_with failure upstream body) = JArr records"
    and "i < length pages"
    and "js_get (pages ! i) ''properties'' = Inr (JObj bag)"
  shows "(\<forall>name property range s.
            field bag name = JObj property \<longrightarrow> field property ''date'' = JObj range \<longrightarrow>
            field range ''start'' = JStr s \<longrightarrow>
            getProp (JObj bag) name ''date'' ''plain_text'' = Inr (JStr s)) \<and>
         (\<forall>name property.
            field bag name = JObj property \<longrightarrow> nullish (field property ''date'') \<longrightarrow>
            getProp (JObj bag) name ''date'' ''plain_text'' = Inr JUndefined) \<and>
         (\<forall>property range s.
            field bag ''Scheduled Date'' = JObj property \<longrightarrow>
            field property ''date'' = JObj range \<longrightarrow> field range ''start'' = JStr s \<longrightarrow>
            js_member (records ! i) ''date'' = JStr s) \<and>
         (\<forall>property.
            field bag ''Scheduled Date'' = JObj property \<longrightarrow>
            nullish (field property ''date'') \<longrightarrow>
            (\<exists>kvs. records ! i = JObj kvs \<and> ''date'' \<notin> fst ` set kvs)) \<and>
         (map_of bag ''Scheduled Date'' = None \<longrightarrow> js_member (records ! i) ''date'' = JNull)"
proof -
  from get_posts_record [OF assms] obtain id headline media caption date kvs
    where d: "getProp (JObj bag) ''Scheduled Date'' ''date'' ''plain_text'' = Inr date"
      and rec: "records ! i = JObj kvs"
      and kvs: "kvs = wire_fields [(''id'', id), (''headline'', headline), (''media'', media),
                              (''caption'', caption), (''date'', date)]"
      and w: "field kvs ''date'' = wire date"
    by blast
  have start: "getProp (JObj bag) name ''date'' ''plain_text'' = Inr (JStr s)"
    if "field bag name = JObj property" "field property ''date'' = JObj range"
      "field range ''start'' = JStr s" for name property range s
    using that getProp_date [of bag name property "''plain_text''"]
    by (simp add: opt_get_def)
  have none: "getProp (JObj bag) name ''date'' ''plain_text'' = Inr JUndefined"
    if "field bag name = JObj property" "nullish (field property ''date'')" for name property
    using that getProp_date [of bag name property "''plain_text''"]
    by (simp add: opt_get_def)
  show ?thesis
  proof (intro conjI allI impI)
    fix name property range s
    assume "field bag name = JObj property" "field property ''date'' = JObj range"
      "field range ''start'' = JStr s"
    then show "getProp (JObj bag) name ''date'' ''plain_text'' = Inr (JStr s)" by (rule start)
  next
    fix name property
    assume "field bag name = JObj property" "nullish (field property ''date'')"
    then show "getProp (JObj bag) name ''date'' ''plain_text'' = Inr JUndefined" by (rule none)
  next
    fix property range s
    assume "field bag ''Scheduled Date'' = JObj property" "field property ''date'' = JObj range"
      "field range ''start'' = JStr s"
    from start [OF this] d have "date = JStr s" by simp
    with rec w show "js_member (records ! i) ''date'' = JStr s" by simp
  next
    fix property
    assume "field bag ''Scheduled Date'' = JObj property" "nullish (field property ''date'')"
    from none [OF this] d have u: "date = JUndefined" by simp
    let ?post = "[(''id'', id), (''headline'', headline), (''media'', media),
                  (''caption'', caption), (''date'', date)]"
    have "field ?post ''date'' = JUndefined" using u by (simp add: field_def)
    moreover have "distinct (map fst ?post)" by simp
    ultimately have "''date'' \<notin> fst ` set (wire_fields ?post)" by (rule wire_fields_absent)
    with rec kvs show "\<exists>kvs. records ! i = JObj kvs \<and> ''date'' \<notin> fst ` set kvs" by blast
  next
    assume "map_of bag ''Scheduled Date'' = None"
    from getProp_absent [OF this, of "''date''" "''plain_text''"] d have "date = JNull" by simp
    with rec w show "js_member (records ! i) ''date'' = JNull" by simp
  qed
qed

theorem date_property_start_or_undefined_witness:
  "sent (get_posts posts_upstream posts_body) = JArr posts_records \<and>
   getProp (JObj bag_a) ''Scheduled Date'' ''date'' ''plain_text'' = Inr (JStr ''2024-05-01'') \<and>
   js_member (posts_records ! 0) ''date'' = JStr ''2024-05-01'' \<and>
   field bag_b ''Scheduled Date'' = JObj [(''type'', JStr ''date''), (''date'', JNull)] \<and>
   getProp (JObj bag_b) ''Scheduled Date'' ''date'' ''plain_text'' = Inr JUndefined \<and>
   (\<exists>kvs. posts_records ! 1 = JObj kvs \<and> ''date'' \<notin> fst ` set kvs) \<and>
   map_of [] ''Scheduled Date'' = (None :: jsval option) \<and>
   js_member (posts_records ! 2) ''date'' = JNull"
proof -
  let ?range = "[(''start'', JStr ''2024-05-01''), (''end'', JNull)]"
  let ?set = "[(''type'', JStr ''date''), (''date'', JObj ?range)]"
  let ?unset = "[(''type'', JStr ''date''), (''date'', JNull)]"
  have sent: "sent (get_posts_with ''Failed to fetch posts from Notion.''
                 posts_upstream posts_body) = JArr posts_records"
    by (rule posts_upstream_sent)
  have i: "0 < length [page_a, page_b, page_c]" "1 < length [page_a, page_b, page_c]"
    "2 < length [page_a, page_b, page_c]"
    by simp_all
  have a: "field bag_a ''Scheduled Date'' = JObj ?set" "field ?set ''date'' = JObj ?range"
    "field ?range ''start'' = JStr ''2024-05-01''"
    by (simp_all add: bag_a_def field_def)
  have b: "field bag_b ''Scheduled Date'' = JObj ?unset" "nullish (field ?unset ''date'')"
    by (simp_all add: bag_b_def field_def)
  have c: "map_of [] ''Scheduled Date'' = (None :: jsval option)" by simp
  note ta = date_property_start_or_undefined
    [OF posts_example(1) posts_example(2) sent i(1) posts_example(3)]
  note tb = date_property_start_or_undefined
    [OF posts_example(1) posts_example(2) sent i(2) posts_example(4)]
  note tc = date_property_start_or_undefined
    [OF posts_example(1) posts_example(2) sent i(3) posts_example(5)]
  from conjunct1 [OF ta] a
  have a1: "getProp (JObj bag_a) ''Scheduled Date'' ''date'' ''plain_text''
            = Inr (JStr ''2024-05-01'')"
    by blast
  from conjunct1 [OF conjunct2 [OF conjunct2 [OF ta]]] a
  have a2: "js_member (posts_records ! 0) ''date'' = JStr ''2024-05-01''" by blast
  from conjunct1 [OF conjunct2 [OF tb]] b
  have b1: "getProp (JObj bag_b) ''Scheduled Date'' ''date'' ''plain_text'' = Inr JUndefined"
    by blast
  from conjunct1 [OF conjunct2 [OF conjunct2 [OF conjunct2 [OF tb]]]] b
  have b2: "\<exists>kvs. posts_records ! 1 = JObj kvs \<and> ''date'' \<notin> fst ` set kvs" by blast
  from conjunct2 [OF conjunct2 [OF conjunct2 [OF conjunct2 [OF tc]]]] c
  have c1: "js_member (posts_records ! 2) ''date'' = JNull" by blast
  from sent a1 a2 b(1) b1 b2 c c1 show ?thesis by (simp only: get_posts_def simp_thms)
qed

text \<open>
  C6. Whenever \<^verbatim>\<open>/api/update-post-date\<close> answers with status 200, the body is exactly
  \<^verbatim>\<open>{ success: true, message }\<close>, the message being the template literal
  \<^verbatim>\<open>`Post ${pageId} updated to ${newDate}`\<close>. When the three fields are non-empty
  strings and the call to the external API resolves, the answer is that one, and the
  message holds the page id and the new date verbatim. The instance of the claim (token
  \<^verbatim>\<open>t\<close>, page \<^verbatim>\<open>p1\<close>, date \<^verbatim>\<open>2024-05-01\<close>) is the witness.
\<close>

theorem update_post_date_acknowledgement:
  "(status (update_post_date upstream body) = 200 \<longrightarrow>
      (\<exists>message.
         update_message (field body ''pageId'') (field body ''newDate'') = Inr message \<and>
         sent (update_post_date upstream body) =
           JObj [(''success'', JBool True), (''message'', JStr message)])) \<and>
   (truthy (field body ''notionToken'') \<and>
    field body ''pageId'' = JStr p \<and> p \<noteq> [] \<and> field body ''newDate'' = JStr d \<and> d \<noteq> [] \<and>
    upstream (update_call (field body ''notionToken'') (JStr p) (JStr d)) = Inr r \<longrightarrow>
      status (update_post_date upstream body) = 200 \<and>
      sent (update_post_date upstream body) =
        JObj [(''success'', JBool True),
              (''message'', JStr (''Post '' @ p @ '' updated to '' @ d))])"
proof (intro conjI impI)
  assume "status (update_post_date upstream body) = 200"
  then show "\<exists>message.
         update_message (field body ''pageId'') (field body ''newDate'') = Inr message \<and>
         sent (update_post_date upstream body) =
           JObj [(''success'', JBool True), (''message'', JStr message)]"
    by (rule update_post_date_200)
next
  assume a: "truthy (field body ''notionToken'') \<and>
    field body ''pageId'' = JStr p \<and> p \<noteq> [] \<and> field body ''newDate'' = JStr d \<and> d \<noteq> [] \<and>
    upstream (update_call (field body ''notionToken'') (JStr p) (JStr d)) = Inr r"
  then have "update_post_date upstream body =
           respond 200
             (JObj [(''success'', JBool True),
                    (''message'', JStr (''Post '' @ p @ '' updated to '' @ d))])
             [update_call (field body ''notionToken'') (JStr p) (JStr d)] []"
    by (intro update_post_date_accepted [where r = r]) simp_all
  then show "status (update_post_date upstream body) = 200"
    and "sent (update_post_date upstream body) =
        JObj [(''success'', JBool True),
              (''message'', JStr (''Post '' @ p @ '' updated to '' @ d))]"
    by simp_all
qed

theorem update_post_date_acknowledgement_witness:
  "truthy (field update_body ''notionToken'') \<and>
   field update_body ''pageId'' = JStr ''p1'' \<and>
   field update_body ''newDate'' = JStr ''2024-05-01'' \<and>
   accepting_upstream (update_call (JStr ''t'') (JStr ''p1'') (JStr ''2024-05-01'')) =
     Inr (JObj [(''object'', JStr ''page''), (''id'', JStr ''p1'')]) \<and>
   status (update_post_date accepting_upstream update_body) = 200 \<and>
   sent (update_post_date accepting_upstream update_body) =
     JObj [(''success'', JBool True), (''message'', JStr ''Post p1 updated to 2024-05-01'')] \<and>
   (\<exists>message.
      update_message (field update_body ''pageId'') (field update_body ''newDate'') = Inr message \<and>
      sent (update_post_date accepting_upstream update_body) =
        JObj [(''success'', JBool True), (''message'', JStr message)])"
proof -
  let ?r = "JObj [(''object'', JStr ''page''), (''id'', JStr ''p1'')]"
  have t: "truthy (field update_body ''notionToken'')"
    by (simp add: update_body_def field_def)
  have p: "field update_body ''pageId'' = JStr ''p1''"
    by (simp add: update_body_def field_def)
  have d: "field update_body ''newDate'' = JStr ''2024-05-01''"
    by (simp add: update_body_def field_def)
  have u: "accepting_upstream
             (update_call (field update_body ''notionToken'') (JStr ''p1'') (JStr ''2024-05-01''))
           = Inr ?r"
    "accepting_upstream (update_call (JStr ''t'') (JStr ''p1'') (JStr ''2024-05-01'')) = Inr ?r"
    by (simp_all add: accepting_upstream_def)
  have n: "''p1'' \<noteq> []" "''2024-05-01'' \<noteq> []" by simp_all
  note inst = update_post_date_acknowledgement
    [of accepting_upstream update_body "''p1''" "''2024-05-01''" ?r]
  have ok: "status (update_post_date accepting_upstream update_body) = 200 \<and>
      sent (update_post_date accepting_upstream update_body) =
        JObj [(''success'', JBool True),
              (''message'', JStr (''Post '' @ ''p1'' @ '' updated to '' @ ''2024-05-01''))]"
    by (rule mp [OF conjunct2 [OF inst]]) (intro conjI t p d n u(1))
  then have ok': "status (update_post_date accepting_upstream update_body) = 200"
    "sent (update_post_date accepting_upstream update_body) =
       JObj [(''success'', JBool True), (''message'', JStr ''Post p1 updated to 2024-05-01'')]"
    by simp_all
  have shape: "\<exists>message.
      update_message (field update_body ''pageId'') (field update_body ''newDate'') = Inr message \<and>
      sent (update_post_date accepting_upstream update_body) =
        JObj [(''success'', JBool True), (''message'', JStr message)]"
    by (rule mp [OF conjunct1 [OF inst]]) (rule ok'(1))
  show ?thesis by (intro conjI t p d u(2) ok' shape)
qed

text \<open>
  C7. On each of the three routes, when the call to the external API rejects, the answer
  has status 500 and its body is the object with the single field \<^verbatim>\<open>error\<close> holding
  the fixed text of the route: the same value whatever the token, the request and the
  error object are.
\<close>

theorem upstream_failure_generic_500:
  "(truthy (field body ''notionToken'') \<and>
    upstream (search_call (field body ''notionToken'')) = Inl error \<longrightarrow>
      status (get_databases upstream body) = 500 \<and>
      sent (get_databases upstream body) =
        JObj [(''error'', JStr ''Failed to fetch databases from Notion.'')]) \<and>
   (truthy (field body ''notionToken'') \<and> truthy (field body ''databaseId'') \<and>
    upstream (query_call (field body ''notionToken'') (field body ''databaseId'')) = Inl error
      \<longrightarrow>
      status (get_posts upstream body) = 500 \<and>
      sent (get_posts upstream body) =
        JObj [(''error'', JStr ''Failed to fetch posts from Notion.'')]) \<and>
   (truthy (field body ''notionToken'') \<and> truthy (field body ''pageId'') \<and>
    truthy (field body ''newDate'') \<and>
    upstream (update_call (field body ''notionToken'') (field body ''pageId'')
                (field body ''newDate'')) = Inl error \<longrightarrow>
      status (update_post_date upstream body) = 500 \<and>
      sent (update_post_date upstream body) =
        JObj [(''error'', JStr ''Failed to update post date in Notion.'')])"
proof (intro conjI impI)
  assume a: "truthy (field body ''notionToken'') \<and>
    upstream (search_call (field body ''notionToken'')) = Inl error"
  then have "get_databases upstream body =
      respond 500 (JObj [(''error'', JStr ''Failed to fetch databases from Notion.'')])
        [search_call (field body ''notionToken'')]
        [(''Error fetching databases:'', error_body error)]"
    by (simp add: get_databases_def get_databases_with_def)
  then show "status (get_databases upstream body) = 500"
    and "sent (get_databases upstream body) =
        JObj [(''error'', JStr ''Failed to fetch databases from Notion.'')]"
    by simp_all
next
  assume a: "truthy (field body ''notionToken'') \<and> truthy (field body ''databaseId'') \<and>
    upstream (query_call (field body ''notionToken'') (field body ''databaseId'')) = Inl error"
  then have "get_posts upstream body =
      respond 500 (JObj [(''error'', JStr ''Failed to fetch posts from Notion.'')])
        [query_call (field body ''notionToken'') (field body ''databaseId'')]
        [(''Error fetching posts:'', error_body error)]"
    by (simp add: get_posts_def get_posts_with_def)
  then show "status (get_posts upstream body) = 500"
    and "sent (get_posts upstream body) =
        JObj [(''error'', JStr ''Failed to fetch posts from Notion.'')]"
    by simp_all
next
  assume a: "truthy (field body ''notionToken'') \<and> truthy (field body ''pageId'') \<and>
    truthy (field body ''newDate'') \<and>
    upstream (update_call (field body ''notionToken'') (field body ''pageId'')
                (field body ''newDate'')) = Inl error"
  then have "update_post_date upstream body =
      respond 500 (JObj [(''error'', JStr ''Failed to update post date in Notion.'')])
        [update_call (field body ''notionToken'') (field body ''pageId'')
           (field body ''newDate'')]
        [(''Error updating post date:'', error_body error)]"
    by (simp add: update_post_date_def)
  then show "status (update_post_date upstream body) = 500"
    and "sent (update_post_date upstream body) =
        JObj [(''error'', JStr ''Failed to update post date in Notion.'')]"
    by simp_all
qed

theorem upstream_failure_generic_500_witness:
  "truthy (field databases_body ''notionToken'') \<and>
   status (get_databases failing_upstream databases_body) = 500 \<and>
   sent (get_databases failing_upstream databases_body) =
     JObj [(''error'', JStr ''Failed to fetch databases from Notion.'')] \<and>
   truthy (field posts_body ''notionToken'') \<and> truthy (field posts_body ''databaseId'') \<and>
   status (get_posts failing_upstream posts_body) = 500 \<and>
   sent (get_posts failing_upstream posts_body) =
     JObj [(''error'', JStr ''Failed to fetch posts from Notion.'')] \<and>
   truthy (field update_body ''notionToken'') \<and> truthy (field update_body ''pageId'') \<and>
   truthy (field update_body ''newDate'') \<and>
   status (update_post_date failing_upstream update_body) = 500 \<and>
   sent (update_post_date failing_upstream update_body) =
     JObj [(''error'', JStr ''Failed to update post date in Notion.'')]"
proof -
  let ?error = "Rejection [(''code'', JStr ''unauthorized''), (''status'', JNum ''401''),
                     (''body'', JStr ''{\"message\":\"API token is invalid.\"}'')]"
  have f: "\<And>call. failing_upstream call = Inl ?error"
    by (simp add: failing_upstream_def)
  have a: "truthy (field databases_body ''notionToken'')"
    by (simp add: databases_body_def field_def)
  have b: "truthy (field posts_body ''notionToken'')" "truthy (field posts_body ''databaseId'')"
    by (simp_all add: posts_body_def field_def)
  have c: "truthy (field update_body ''notionToken'')" "truthy (field update_body ''pageId'')"
    "truthy (field update_body ''newDate'')"
    by (simp_all add: update_body_def field_def)
  note all = upstream_failure_generic_500 [where upstream = failing_upstream and error = ?error]
  have r1: "status (get_databases failing_upstream databases_body) = 500 \<and>
      sent (get_databases failing_upstream databases_body) =
        JObj [(''error'', JStr ''Failed to fetch databases from Notion.'')]"
    by (rule mp [OF conjunct1 [OF all]]) (intro conjI a f)
  have r2: "status (get_posts failing_upstream posts_body) = 500 \<and>
      sent (get_posts failing_upstream posts_body) =
        JObj [(''error'', JStr ''Failed to fetch posts from Notion.'')]"
    by (rule mp [OF conjunct1 [OF conjunct2 [OF all]]]) (intro conjI b f)
  have r3: "status (update_post_date failing_upstream update_body) = 500 \<and>
      sent (update_post_date failing_upstream update_body) =
        JObj [(''error'', JStr ''Failed to update post date in Notion.'')]"
    by (rule mp [OF conjunct2 [OF conjunct2 [OF all]]]) (intro conjI c f)
  show ?thesis
    by (intro conjI a b c r1 [THEN conjunct1] r1 [THEN conjunct2] r2 [THEN conjunct1]
        r2 [THEN conjunct2] r3 [THEN conjunct1] r3 [THEN conjunct2])
qed

text \<open>The second copy of the first two handlers differs in the fixed text only.\<close>

lemma upstream_failure_commented:
  "(truthy (field body ''notionToken'') \<and>
    upstream (search_call (field body ''notionToken'')) = Inl error \<longrightarrow>
      status (get_databases_commented upstream body) = 500 \<and>
      sent (get_databases_commented upstream body) =
        JObj [(''error'',
               JStr ''Failed to fetch databases from Notion. Check your token and permissions.'')])
   \<and>
   (truthy (field body ''notionToken'') \<and> truthy (field body ''databaseId'') \<and>
    upstream (query_call (field body ''notionToken'') (field body ''databaseId'')) = Inl error
      \<longrightarrow>
      status (get_posts_commented upstream body) = 500 \<and>
      sent (get_posts_commented upstream body) =
        JObj [(''error'',
               JStr (''Failed to fetch posts from Notion. '' @
                     ''Check database ID and ensure integration has access.''))])"
  by (simp add: get_databases_commented_def get_databases_with_def
      get_posts_commented_def get_posts_with_def)

text \<open>
  C8. Two runs of \<^verbatim>\<open>/api/update-post-date\<close> on the same request body, the call to the
  external API resolving in both (to whatever values), send the same status and the same
  body; with non-empty strings as fields, both times the success acknowledgement.
\<close>

theorem update_post_date_repeatable:
  assumes "first_time (update_call (field body ''notionToken'') (field body ''pageId'')
             (field body ''newDate'')) = Inr r1"
    and "second_time (update_call (field body ''notionToken'') (field body ''pageId'')
             (field body ''newDate'')) = Inr r2"
  shows "status (update_post_date second_time body) = status (update_post_date first_time body) \<and>
         sent (update_post_date second_time body) = sent (update_post_date first_time body) \<and>
         (truthy (field body ''notionToken'') \<and>
          field body ''pageId'' = JStr p \<and> p \<noteq> [] \<and> field body ''newDate'' = JStr d \<and> d \<noteq> []
          \<longrightarrow>
            status (update_post_date first_time body) = 200 \<and>
            sent (update_post_date first_time body) =
              JObj [(''success'', JBool True),
                    (''message'', JStr (''Post '' @ p @ '' updated to '' @ d))])"
proof -
  have same: "update_post_date second_time body = update_post_date first_time body"
    unfolding update_post_date_resolved [where upstream = first_time, OF assms(1)]
      update_post_date_resolved [where upstream = second_time, OF assms(2)] ..
  have "status (update_post_date first_time body) = 200 \<and>
        sent (update_post_date first_time body) =
          JObj [(''success'', JBool True),
                (''message'', JStr (''Post '' @ p @ '' updated to '' @ d))]"
    if "truthy (field body ''notionToken'') \<and>
          field body ''pageId'' = JStr p \<and> p \<noteq> [] \<and> field body ''newDate'' = JStr d \<and> d \<noteq> []"
    using that assms(1) update_post_date_accepted [where upstream = first_time and body = body
        and p = p and d = d and r = r1]
    by simp
  with same show ?thesis by simp
qed

theorem update_post_date_repeatable_witness:
  "accepting_upstream (update_call (JStr ''t'') (JStr ''p1'') (JStr ''2024-05-01'')) \<noteq>
   accepting_later_upstream (update_call (JStr ''t'') (JStr ''p1'') (JStr ''2024-05-01'')) \<and>
   status (update_post_date accepting_later_upstream update_body) =
     status (update_post_date accepting_upstream update_body) \<and>
   sent (update_post_date accepting_later_upstream update_body) =
     sent (update_post_date accepting_upstream update_body) \<and>
   truthy (field update_body ''notionToken'') \<and>
   field update_body ''pageId'' = JStr ''p1'' \<and>
   field update_body ''newDate'' = JStr ''2024-05-01'' \<and>
   status (update_post_date accepting_upstream update_body) = 200 \<and>
   sent (update_post_date accepting_upstream update_body) =
     JObj [(''success'', JBool True), (''message'', JStr ''Post p1 updated to 2024-05-01'')]"
proof -
  let ?r1 = "JObj [(''object'', JStr ''page''), (''id'', JStr ''p1'')]"
  let ?r2 = "JObj [(''object'', JStr ''page''), (''id'', JStr ''p1''),
                   (''last_edited_time'', JStr ''2024-04-30T10:00:00.000Z'')]"
  have t: "truthy (field update_body ''notionToken'')"
    by (simp add: update_body_def field_def)
  have p: "field update_body ''pageId'' = JStr ''p1''"
    by (simp add: update_body_def field_def)
  have d: "field update_body ''newDate'' = JStr ''2024-05-01''"
    by (simp add: update_body_def field_def)
  have n: "''p1'' \<noteq> []" "''2024-05-01'' \<noteq> []" by simp_all
  have u1: "accepting_upstream
              (update_call (field update_body ''notionToken'') (field update_body ''pageId'')
                 (field update_body ''newDate'')) = Inr ?r1"
    by (simp add: accepting_upstream_def)
  have u2: "accepting_later_upstream
              (update_call (field update_body ''notionToken'') (field update_body ''pageId'')
                 (field update_body ''newDate'')) = Inr ?r2"
    by (simp add: accepting_later_upstream_def)
  have differ: "accepting_upstream (update_call (JStr ''t'') (JStr ''p1'') (JStr ''2024-05-01''))
      \<noteq> accepting_later_upstream (update_call (JStr ''t'') (JStr ''p1'') (JStr ''2024-05-01''))"
    by (simp add: accepting_upstream_def accepting_later_upstream_def)
  note inst = update_post_date_repeatable [where first_time = accepting_upstream
      and second_time = accepting_later_upstream and p = "''p1''" and d = "''2024-05-01''",
      OF u1 u2]
  have ack: "status (update_post_date accepting_upstream update_body) = 200 \<and>
      sent (update_post_date accepting_upstream update_body) =
        JObj [(''success'', JBool True),
              (''message'', JStr (''Post '' @ ''p1'' @ '' updated to '' @ ''2024-05-01''))]"
    by (rule mp [OF conjunct2 [OF conjunct2 [OF inst]]]) (intro conjI t p d n)
  then have ack': "status (update_post_date accepting_upstream update_body) = 200"
    "sent (update_post_date accepting_upstream update_body) =
       JObj [(''success'', JBool True), (''message'', JStr ''Post p1 updated to 2024-05-01'')]"
    by simp_all
  show ?thesis
    by (intro conjI differ conjunct1 [OF inst] conjunct1 [OF conjunct2 [OF inst]] t p d ack')
qed

text \<open>
  C9. In a record of a successful answer of \<^verbatim>\<open>/api/get-posts\<close> whose page has no
  \<^verbatim>\<open>Media\<close> property, or has one with \<^verbatim>\<open>url: null\<close>, \<^verbatim>\<open>media\<close> is the empty
  array.
\<close>

theorem media_empty_without_url:
  assumes "upstream (query_call (field body ''notionToken'') (field body ''databaseId''))
             = Inr response"
    and "js_get response ''results'' = Inr (JArr pages)"
    and "sent (get_posts_with failure upstream body) = JArr records"
    and "i < length pages"
    and "js_get (pages ! i) ''properties'' = Inr (JObj bag)"
    and "map_of bag ''Media'' = None \<or>
         (\<exists>media. field bag ''Media'' = JObj media \<and> field media ''url'' = JNull)"
  shows "js_member (records ! i) ''media'' = JArr []"
proof -
  from get_posts_record [OF assms(1-5)] obtain u m kvs
    where u: "getProp (JObj bag) ''Media'' ''url'' ''plain_text'' = Inr u"
      and m: "media_list (js_or u (JStr '''')) = Inr m"
      and rec: "records ! i = JObj kvs" "field kvs ''media'' = wire m"
    by blast
  from assms(6) have "getProp (JObj bag) ''Media'' ''url'' ''plain_text'' = Inr JNull"
  proof
    assume "map_of bag ''Media'' = None"
    then show ?thesis by (rule getProp_absent)
  next
    assume "\<exists>media. field bag ''Media'' = JObj media \<and> field media ''url'' = JNull"
    then obtain media where "field bag ''Media'' = JObj media" and "field media ''url'' = JNull"
      by blast
    with getProp_url [of bag "''Media''" media "''plain_text''"] show ?thesis by simp
  qed
  with u have "u = JNull" by simp
  with m media_list_falsy [of JNull] have "m = JArr []" by simp
  with rec show ?thesis by simp
qed

theorem media_empty_without_url_witness:
  "sent (get_posts posts_upstream posts_body) = JArr posts_records \<and>
   field bag_b ''Media'' = JObj [(''type'', JStr ''url''), (''url'', JNull)] \<and>
   js_member (posts_records ! 1) ''media'' = JArr [] \<and>
   map_of [] ''Media'' = (None :: jsval option) \<and>
   js_member (posts_records ! 2) ''media'' = JArr []"
proof -
  let ?media = "[(''type'', JStr ''url''), (''url'', JNull)]"
  have sent: "sent (get_posts_with ''Failed to fetch posts from Notion.''
                 posts_upstream posts_body) = JArr posts_records"
    by (rule posts_upstream_sent)
  have i: "1 < length [page_a, page_b, page_c]" "2 < length [page_a, page_b, page_c]"
    by simp_all
  have m: "field bag_b ''Media'' = JObj ?media" "field ?media ''url'' = JNull"
    by (simp_all add: bag_b_def field_def)
  then have b: "map_of bag_b ''Media'' = None \<or>
      (\<exists>media. field bag_b ''Media'' = JObj media \<and> field media ''url'' = JNull)"
    by blast
  have c: "map_of [] ''Media'' = (None :: jsval option) \<or>
      (\<exists>media. field [] ''Media'' = JObj media \<and> field media ''url'' = JNull)"
    by simp
  have n: "map_of [] ''Media'' = (None :: jsval option)" by simp
  note r1 = media_empty_without_url
    [OF posts_example(1) posts_example(2) sent i(1) posts_example(4) b]
  note r2 = media_empty_without_url
    [OF posts_example(1) posts_example(2) sent i(2) posts_example(5) c]
  from sent m(1) r1 n r2 show ?thesis by (simp only: get_posts_def simp_thms)
qed

text \<open>
  C10. In a successful answer of \<^verbatim>\<open>/api/get-databases\<close>, the title of a database
  whose upstream title is an array of fragments is \<^verbatim>\<open>Untitled Database\<close> when the array
  is empty, and also when its first fragment has the empty string as
  \<^verbatim>\<open>plain_text\<close> or has no \<^verbatim>\<open>plain_text\<close> (or is \<^verbatim>\<open>null\<close>). A non-empty
  \<^verbatim>\<open>plain_text\<close> string of the first fragment is the title itself.
\<close>

theorem untitled_database_default:
  assumes "upstream (search_call (field body ''notionToken'')) = Inr response"
    and "js_get response ''results'' = Inr (JArr dbs)"
    and "sent (get_databases_with failure upstream body) = JArr records"
    and "i < length dbs"
    and "js_member (dbs ! i) ''title'' = JArr fragments"
  shows "(fragments = [] \<longrightarrow>
            js_member (records ! i) ''title'' = JStr ''Untitled Database'') \<and>
         (\<forall>fragment rest. fragments = fragment # rest \<longrightarrow>
            opt_get fragment ''plain_text'' = JStr '''' \<or>
            nullish (opt_get fragment ''plain_text'') \<longrightarrow>
            js_member (records ! i) ''title'' = JStr ''Untitled Database'') \<and>
         (\<forall>fragment rest s. fragments = fragment # rest \<longrightarrow>
            opt_get fragment ''plain_text'' = JStr s \<longrightarrow> s \<noteq> [] \<longrightarrow>
            js_member (records ! i) ''title'' = JStr s)"
proof -
  note r = get_databases_record [OF assms, THEN conjunct2]
  have nullish_falsy: "\<And>v. nullish v \<Longrightarrow> \<not> truthy v"
    by (auto dest: truthy_not_nullish)
  show ?thesis
  proof (intro conjI allI impI)
    assume "fragments = []"
    with r show "js_member (records ! i) ''title'' = JStr ''Untitled Database''"
      by (simp add: opt_get_def js_or_def)
  next
    fix fragment rest
    assume "fragments = fragment # rest"
      and "opt_get fragment ''plain_text'' = JStr '''' \<or> nullish (opt_get fragment ''plain_text'')"
    with r show "js_member (records ! i) ''title'' = JStr ''Untitled Database''"
      by (auto simp: js_or_def dest: nullish_falsy)
  next
    fix fragment rest s
    assume "fragments = fragment # rest" and "opt_get fragment ''plain_text'' = JStr s"
      and "s \<noteq> []"
    with r show "js_member (records ! i) ''title'' = JStr s"
      by (simp add: js_or_def)
  qed
qed

theorem untitled_database_default_witness:
  "sent (get_databases databases_upstream databases_body) = JArr databases_records \<and>
   js_member (databases_records ! 0) ''title'' = JStr ''Untitled Database'' \<and>
   js_member (databases_records ! 1) ''title'' = JStr ''Untitled Database'' \<and>
   js_member (databases_records ! 2) ''title'' = JStr ''Untitled Database'' \<and>
   js_member (databases_records ! 3) ''title'' = JStr ''Roadmap''"
proof -
  let ?db0 = "JObj [(''id'', JStr ''db0''), (''title'', JArr [])]"
  let ?f1 = "JObj [(''plain_text'', JStr '''')]"
  let ?r1 = "[JObj [(''plain_text'', JStr ''tail'')]]"
  let ?db1 = "JObj [(''id'', JStr ''db1''), (''title'', JArr (?f1 # ?r1))]"
  let ?f2 = "JObj [(''type'', JStr ''mention'')]"
  let ?db2 = "JObj [(''id'', JStr ''db2''), (''title'', JArr [?f2])]"
  let ?f3 = "JObj [(''plain_text'', JStr ''Roadmap'')]"
  let ?db3 = "JObj [(''id'', JStr ''db3''), (''title'', JArr [?f3])]"
  let ?dbs = "[?db0, ?db1, ?db2, ?db3]"
  let ?response = "JObj [(''object'', JStr ''list''), (''results'', JArr ?dbs)]"
  have up: "databases_upstream (search_call (field databases_body ''notionToken'')) = Inr ?response"
    by (simp add: databases_upstream_def)
  have res: "js_get ?response ''results'' = Inr (JArr ?dbs)"
    by (simp add: js_get_def field_def)
  have sent: "sent (get_databases_with ''Failed to fetch databases from Notion.''
                 databases_upstream databases_body) = JArr databases_records"
    by (simp add: get_databases_with_def databases_upstream_def databases_body_def
        databases_records_def field_def js_get_def js_map_def database_summary_def
        opt_get_def js_or_def)
  note t = untitled_database_default [OF up res sent]
  have t0: "js_member (databases_records ! 0) ''title'' = JStr ''Untitled Database''"
    by (rule mp [OF conjunct1 [OF t [of 0 "[]"]]]) (simp_all add: field_def)
  have f1: "opt_get ?f1 ''plain_text'' = JStr '''' \<or> nullish (opt_get ?f1 ''plain_text'')"
    by (simp add: opt_get_def field_def)
  have t1: "js_member (databases_records ! 1) ''title'' = JStr ''Untitled Database''"
    using conjunct1 [OF conjunct2 [OF t [of 1 "?f1 # ?r1"]]] f1
    by (auto simp: field_def)
  have f2: "opt_get ?f2 ''plain_text'' = JStr '''' \<or> nullish (opt_get ?f2 ''plain_text'')"
    by (simp add: opt_get_def field_def)
  have t2: "js_member (databases_records ! 2) ''title'' = JStr ''Untitled Database''"
    using conjunct1 [OF conjunct2 [OF t [of 2 "[?f2]"]]] f2
    by (auto simp: field_def)
  have f3: "opt_get ?f3 ''plain_text'' = JStr ''Roadmap''"
    by (simp add: opt_get_def field_def)
  have t3: "js_member (databases_records ! 3) ''title'' = JStr ''Roadmap''"
    using conjunct2 [OF conjunct2 [OF t [of 3 "[?f3]"]]] f3
    by (simp add: field_def)
  from sent t0 t1 t2 t3 show ?thesis
    by (simp only: get_databases_def simp_thms)
qed

end
